theory Spec2Isabelle
  imports Main "HOL-Library.AList" "HOL-Library.Word"
begin

section \<open>Python values, exceptions and the library the client calls\<close>

text \<open>
  A Python \<open>str\<close> is modelled by the \<open>char\<close> list of its UTF-8 encoding, a \<open>bytes\<close>
  object by the list of its bytes; \<open>str.encode("utf-8")\<close> is then the identity. A \<open>str\<close>
  holding an unpaired surrogate has no UTF-8 encoding and is outside the model.
\<close>

type_synonym bytes = string

definition encode_utf8 :: "string \<Rightarrow> bytes" where
  "encode_utf8 s = s"

text \<open>
  The values \<open>json\<close> delivers and the cache stores: \<open>None\<close>, booleans, integers, floats
  (their binary64 pattern), strings, lists and dicts with string keys (in insertion order).
\<close>

datatype pyval =
    PNone
  | PBool bool
  | PInt int
  | PFloat "64 word"
  | PStr string
  | PList "pyval list"
  | PDict "(string \<times> pyval) list"

text \<open>
  The exceptions of the client: \<open>RequestError\<close> and \<open>RequestTimeoutError\<close> are the
  client's own (module \<open>exceptions.envbee_exceptions\<close>, constructed in \<open>_send_request\<close>
  with a status code and a message, and with a message); \<open>TransportException\<close> is any
  exception other than a timeout that \<open>requests.get\<close> raises, by its class name; the
  others are Python's.
\<close>

datatype exn =
    RequestError int string
  | RequestTimeoutError string
  | TransportException string
  | JSONDecodeError
  | AttributeError
  | KeyError
  | TypeError
  | ValueError

text \<open>
  Library functions the client calls and that are taken as parameters: the keyed hash
  \<open>hmac.new(key, digestmod=hashlib.sha256)\<close> read by \<open>hexdigest()\<close>, \<open>hashlib.md5\<close>
  read by \<open>hexdigest()\<close>, \<open>platformdirs.user_cache_dir(appname, appauthor)\<close>, and the two
  checks of \<open>urllib.parse.urlsplit\<close> that rest on the modules \<open>ipaddress\<close> and
  \<open>unicodedata\<close>: whether a bracketed host is accepted, and NFKC normalisation.
\<close>

record pylib =
  hmac_sha256_hexdigest :: "bytes \<Rightarrow> bytes \<Rightarrow> string"
  md5_hexdigest :: "bytes \<Rightarrow> string"
  user_cache_dir :: "string \<Rightarrow> string \<Rightarrow> string"
  check_bracketed_host :: "string \<Rightarrow> bool"
  nfkc :: "string \<Rightarrow> string"

subsection \<open>\<open>str(int)\<close>\<close>

text \<open>The decimal digit of a number below ten.\<close>

definition digit_char :: "nat \<Rightarrow> char" where
  "digit_char d = ''0123456789'' ! d"

function digits_nat :: "nat \<Rightarrow> string" where
  "digits_nat n = (if n < 10 then [digit_char n] else digits_nat (n div 10) @ [digit_char (n mod 10)])"
  by pat_completeness auto
termination
  by (relation "measure id") auto

declare digits_nat.simps [simp del]

definition str_int :: "int \<Rightarrow> string" where
  "str_int i = (if i < 0 then CHR ''-'' # digits_nat (nat (- i)) else digits_nat (nat i))"

subsection \<open>Dict access, subscription and iteration on a value\<close>

text \<open>\<open>v.get(k, default)\<close>: only a dict has the method.\<close>

definition dict_get :: "pyval \<Rightarrow> string \<Rightarrow> pyval \<Rightarrow> exn + pyval" where
  "dict_get v k dflt =
     (case v of
        PDict d \<Rightarrow> Inr (case map_of d k of Some x \<Rightarrow> x | None \<Rightarrow> dflt)
      | _ \<Rightarrow> Inl AttributeError)"

text \<open>\<open>v[k]\<close> with a string \<open>k\<close>: a missing key raises KeyError, a list or a string takes
  no string index and the other values are not subscriptable (TypeError).\<close>

definition getitem :: "pyval \<Rightarrow> string \<Rightarrow> exn + pyval" where
  "getitem v k =
     (case v of
        PDict d \<Rightarrow> (case map_of d k of Some x \<Rightarrow> Inr x | None \<Rightarrow> Inl KeyError)
      | _ \<Rightarrow> Inl TypeError)"

text \<open>The characters of a string: each UTF-8 lead byte with its continuation bytes.\<close>

definition is_continuation :: "char \<Rightarrow> bool" where
  "is_continuation c = (128 \<le> (of_char c :: nat) \<and> (of_char c :: nat) < 192)"

function utf8_chars :: "string \<Rightarrow> string list" where
  "utf8_chars [] = []"
| "utf8_chars (c # cs) = (c # takeWhile is_continuation cs) # utf8_chars (dropWhile is_continuation cs)"
  by pat_completeness auto
termination
  by (relation "measure length") (auto simp: length_dropWhile_le less_Suc_eq_le)

text \<open>\<open>for v in data\<close>: a list gives its elements, a dict its keys, a string its
  characters; the other values are not iterable.\<close>

definition py_iter :: "pyval \<Rightarrow> exn + pyval list" where
  "py_iter v =
     (case v of
        PList xs \<Rightarrow> Inr xs
      | PDict d \<Rightarrow> Inr (map (\<lambda>kv. PStr (fst kv)) d)
      | PStr s \<Rightarrow> Inr (map PStr (utf8_chars s))
      | _ \<Rightarrow> Inl TypeError)"

section \<open>The functions of \<open>urllib.parse\<close> behind \<open>add_querystring\<close>\<close>

text \<open>
  \<open>urlparse\<close>, \<open>parse_qs\<close>, \<open>urlencode\<close> and \<open>urlunparse\<close> as CPython 3.11 defines them
  for \<open>str\<close> arguments and the default options, written over the UTF-8 encoding.
\<close>

definition byte :: "char \<Rightarrow> nat" where
  "byte c = of_char c"

definition is_ascii :: "char \<Rightarrow> bool" where
  "is_ascii c = (byte c < 128)"

definition is_ascii_alpha :: "char \<Rightarrow> bool" where
  "is_ascii_alpha c = ((65 \<le> byte c \<and> byte c \<le> 90) \<or> (97 \<le> byte c \<and> byte c \<le> 122))"

definition is_digit :: "char \<Rightarrow> bool" where
  "is_digit c = (48 \<le> byte c \<and> byte c \<le> 57)"

definition lower_char :: "char \<Rightarrow> char" where
  "lower_char c = (if 65 \<le> byte c \<and> byte c \<le> 90 then char_of (byte c + 32) else c)"

text \<open>\<open>s.partition(c)\<close>: what is before and what is after the first \<open>c\<close> (all of \<open>s\<close> and
  the empty string when there is none); \<open>s.split(c, 1)\<close> where \<open>c\<close> occurs.\<close>

definition partition_at :: "char \<Rightarrow> string \<Rightarrow> string \<times> string" where
  "partition_at c s = (takeWhile (\<lambda>x. x \<noteq> c) s, drop 1 (dropWhile (\<lambda>x. x \<noteq> c) s))"

text \<open>\<open>s.split(c)\<close>.\<close>

fun split_on :: "char \<Rightarrow> string \<Rightarrow> string list" where
  "split_on c [] = [[]]"
| "split_on c (x # xs) =
     (if x = c then [] # split_on c xs
      else (case split_on c xs of [] \<Rightarrow> [[x]] | y # ys \<Rightarrow> (x # y) # ys))"

text \<open>\<open>sep.join(xs)\<close>.\<close>

fun join :: "string \<Rightarrow> string list \<Rightarrow> string" where
  "join sep [] = []"
| "join sep [x] = x"
| "join sep (x # y # zs) = x @ sep @ join sep (y # zs)"

subsection \<open>\<open>urlsplit\<close> and \<open>urlparse\<close>\<close>

definition uses_netloc :: "string list" where
  "uses_netloc = [[], ''ftp'', ''http'', ''gopher'', ''nntp'', ''telnet'',
     ''imap'', ''wais'', ''file'', ''mms'', ''https'', ''shttp'',
     ''snews'', ''prospero'', ''rtsp'', ''rtsps'', ''rtspu'', ''rsync'',
     ''svn'', ''svn+ssh'', ''sftp'', ''nfs'', ''git'', ''git+ssh'',
     ''ws'', ''wss'']"

definition uses_params :: "string list" where
  "uses_params = [[], ''ftp'', ''hdl'', ''prospero'', ''http'', ''imap'',
     ''https'', ''shttp'', ''rtsp'', ''rtsps'', ''rtspu'', ''sip'',
     ''sips'', ''mms'', ''sftp'', ''tel'']"

definition scheme_char :: "char \<Rightarrow> bool" where
  "scheme_char c = (is_ascii_alpha c \<or> is_digit c \<or> c \<in> set ''+-.'')"

definition is_c0_or_space :: "char \<Rightarrow> bool" where
  "is_c0_or_space c = (byte c \<le> 32)"

definition is_unsafe_byte :: "char \<Rightarrow> bool" where
  "is_unsafe_byte c = (byte c = 9 \<or> byte c = 13 \<or> byte c = 10)"

text \<open>\<open>i = url.find(':')\<close> is positive, \<open>url[0]\<close> is an ASCII letter and every character
  of \<open>url[:i]\<close> is a scheme character.\<close>

definition has_scheme :: "string \<Rightarrow> bool" where
  "has_scheme url =
     (case url of
        [] \<Rightarrow> False
      | c # _ \<Rightarrow> CHR '':'' \<in> set url \<and> is_ascii_alpha c
                 \<and> list_all scheme_char (takeWhile (\<lambda>x. x \<noteq> CHR '':'') url))"

text \<open>\<open>_splitnetloc(url, 2)\<close>: the netloc ends at the first of \<open>/\<close>, \<open>?\<close>, \<open>#\<close>.\<close>

definition splitnetloc :: "string \<Rightarrow> string \<times> string" where
  "splitnetloc url =
     (takeWhile (\<lambda>c. c \<notin> set ''/?#'') (drop 2 url), dropWhile (\<lambda>c. c \<notin> set ''/?#'') (drop 2 url))"

text \<open>\<open>netloc.partition('[')[2].partition(']')[0]\<close>.\<close>

definition bracketed_host :: "string \<Rightarrow> string" where
  "bracketed_host nl = fst (partition_at CHR '']'' (snd (partition_at CHR ''['' nl)))"

text \<open>\<open>_checknetloc\<close>: true when it returns, false when it raises ValueError.\<close>

definition checknetloc :: "pylib \<Rightarrow> string \<Rightarrow> bool" where
  "checknetloc L nl =
     (if nl = [] then True
      else if list_all is_ascii nl then True
      else (let n = filter (\<lambda>c. c \<notin> set ''@:#?'') nl;
                netloc2 = nfkc L n
            in if n = netloc2 then True
               else list_all (\<lambda>c. c \<notin> set netloc2) ''/?#@:''))"

definition urlsplit :: "pylib \<Rightarrow> string \<Rightarrow> exn + (string \<times> string \<times> string \<times> string \<times> string)" where
  "urlsplit L url0 =
     (let url = dropWhile is_c0_or_space url0;
          url = filter (\<lambda>c. \<not> is_unsafe_byte c) url;
          (sch, url) =
            (if has_scheme url
             then (map lower_char (fst (partition_at CHR '':'' url)), snd (partition_at CHR '':'' url))
             else ([], url));
          (nl, url) = (if take 2 url = ''//'' then splitnetloc url else ([], url))
      in if CHR ''['' \<in> set nl \<and> CHR '']'' \<notin> set nl then Inl ValueError
         else if CHR '']'' \<in> set nl \<and> CHR ''['' \<notin> set nl then Inl ValueError
         else if CHR ''['' \<in> set nl \<and> CHR '']'' \<in> set nl
                 \<and> \<not> check_bracketed_host L (bracketed_host nl) then Inl ValueError
         else (let (url, f) =
                     (if CHR ''#'' \<in> set url then partition_at CHR ''#'' url else (url, []));
                   (url, q) =
                     (if CHR ''?'' \<in> set url then partition_at CHR ''?'' url else (url, []))
               in if checknetloc L nl then Inr (sch, nl, url, q, f)
                  else Inl ValueError))"

text \<open>\<open>_splitparams\<close>, called when the path holds a \<open>;\<close>: the parameters are what follows
  the first \<open>;\<close> of the last segment.\<close>

definition splitparams :: "string \<Rightarrow> string \<times> string" where
  "splitparams url =
     (if CHR ''/'' \<in> set url then
        (let seg = rev (takeWhile (\<lambda>c. c \<noteq> CHR ''/'') (rev url));
             front = take (length url - length seg) url
         in if CHR '';'' \<in> set seg
            then (front @ fst (partition_at CHR '';'' seg), snd (partition_at CHR '';'' seg))
            else (url, []))
      else partition_at CHR '';'' url)"

record url_parts =
  scheme :: string
  netloc :: string
  path :: string
  params :: string
  query :: string
  fragment :: string

definition urlparse :: "pylib \<Rightarrow> string \<Rightarrow> exn + url_parts" where
  "urlparse L url =
     (case urlsplit L url of
        Inl e \<Rightarrow> Inl e
      | Inr (sch, nl, u, q, f) \<Rightarrow>
          (let (u, ps) = (if sch \<in> set uses_params \<and> CHR '';'' \<in> set u then splitparams u else (u, []))
           in Inr \<lparr> scheme = sch, netloc = nl, path = u, params = ps, query = q, fragment = f \<rparr>))"

subsection \<open>\<open>urlunsplit\<close> and \<open>urlunparse\<close>\<close>

definition urlunsplit :: "string \<Rightarrow> string \<Rightarrow> string \<Rightarrow> string \<Rightarrow> string \<Rightarrow> string" where
  "urlunsplit sch nl url0 q f =
     (let with_netloc =
            (if nl \<noteq> [] then True
             else if sch \<noteq> [] \<and> sch \<in> set uses_netloc then True
             else take 2 url0 = ''//'');
          url = (if with_netloc
                 then ''//'' @ nl @ (if url0 \<noteq> [] \<and> take 1 url0 \<noteq> ''/'' then ''/'' @ url0 else url0)
                 else url0);
          url = (if sch \<noteq> [] then sch @ '':'' @ url else url);
          url = (if q \<noteq> [] then url @ ''?'' @ q else url);
          url = (if f \<noteq> [] then url @ ''#'' @ f else url)
      in url)"

definition urlunparse :: "url_parts \<Rightarrow> string" where
  "urlunparse p =
     urlunsplit (scheme p) (netloc p)
       (if params p \<noteq> [] then path p @ '';'' @ params p else path p) (query p) (fragment p)"

subsection \<open>\<open>unquote\<close> and \<open>parse_qs\<close>\<close>

definition is_hexdig :: "char \<Rightarrow> bool" where
  "is_hexdig c = (c \<in> set ''0123456789ABCDEFabcdef'')"

definition hex_value :: "char \<Rightarrow> nat" where
  "hex_value c =
     (if is_digit c then byte c - 48
      else if byte c \<le> 70 then byte c - 55
      else byte c - 87)"

text \<open>One piece after a \<open>%\<close>: two hex digits give their byte, anything else keeps the
  \<open>%\<close>.\<close>

definition unquote_item :: "string \<Rightarrow> bytes" where
  "unquote_item item =
     (case item of
        a # b # rest \<Rightarrow>
          if is_hexdig a \<and> is_hexdig b then char_of (16 * hex_value a + hex_value b) # rest
          else CHR ''%'' # item
      | _ \<Rightarrow> CHR ''%'' # item)"

definition unquote_to_bytes :: "string \<Rightarrow> bytes" where
  "unquote_to_bytes s =
     (case split_on CHR ''%'' (encode_utf8 s) of
        [] \<Rightarrow> []
      | bit0 # items \<Rightarrow> bit0 @ concat (map unquote_item items))"

text \<open>
  \<open>bytes.decode("utf-8", "replace")\<close> followed by the encoding the model keeps strings
  in: well-formed sequences stay, and every maximal ill-formed part becomes U+FFFD.
\<close>

definition replacement :: string where
  "replacement = [char_of (239::nat), char_of (191::nat), char_of (189::nat)]"

definition second_ok :: "char \<Rightarrow> char \<Rightarrow> bool" where
  "second_ok b b1 =
     (if byte b = 224 then 160 \<le> byte b1 \<and> byte b1 \<le> 191
      else if byte b = 237 then 128 \<le> byte b1 \<and> byte b1 \<le> 159
      else if byte b = 240 then 144 \<le> byte b1 \<and> byte b1 \<le> 191
      else if byte b = 244 then 128 \<le> byte b1 \<and> byte b1 \<le> 143
      else 128 \<le> byte b1 \<and> byte b1 \<le> 191)"

fun decode_replace :: "bytes \<Rightarrow> string" where
  "decode_replace [] = []"
| "decode_replace (b # bs) =
     (if byte b < 128 then b # decode_replace bs
      else if 194 \<le> byte b \<and> byte b \<le> 223 then
        (case bs of
           [] \<Rightarrow> replacement
         | b1 # r1 \<Rightarrow>
             if is_continuation b1 then b # b1 # decode_replace r1
             else replacement @ decode_replace bs)
      else if 224 \<le> byte b \<and> byte b \<le> 239 then
        (case bs of
           [] \<Rightarrow> replacement
         | b1 # r1 \<Rightarrow>
             if second_ok b b1 then
               (case r1 of
                  [] \<Rightarrow> replacement
                | b2 # r2 \<Rightarrow>
                    if is_continuation b2 then b # b1 # b2 # decode_replace r2
                    else replacement @ decode_replace r1)
             else replacement @ decode_replace bs)
      else if 240 \<le> byte b \<and> byte b \<le> 244 then
        (case bs of
           [] \<Rightarrow> replacement
         | b1 # r1 \<Rightarrow>
             if second_ok b b1 then
               (case r1 of
                  [] \<Rightarrow> replacement
                | b2 # r2 \<Rightarrow>
                    if is_continuation b2 then
                      (case r2 of
                         [] \<Rightarrow> replacement
                       | b3 # r3 \<Rightarrow>
                           if is_continuation b3 then b # b1 # b2 # b3 # decode_replace r3
                           else replacement @ decode_replace r2)
                    else replacement @ decode_replace r1)
             else replacement @ decode_replace bs)
      else replacement @ decode_replace bs)"

text \<open>\<open>unquote\<close> on a string with a \<open>%\<close>: each run of ASCII characters is unquoted to
  bytes and decoded, the other characters stay.\<close>

function unquote_runs :: "string \<Rightarrow> string" where
  "unquote_runs [] = []"
| "unquote_runs (c # cs) =
     (if is_ascii c
      then decode_replace (unquote_to_bytes (c # takeWhile is_ascii cs))
             @ unquote_runs (dropWhile is_ascii cs)
      else (c # takeWhile (\<lambda>x. \<not> is_ascii x) cs)
             @ unquote_runs (dropWhile (\<lambda>x. \<not> is_ascii x) cs))"
  by pat_completeness auto
termination
  by (relation "measure length") (auto simp: length_dropWhile_le less_Suc_eq_le)

definition unquote :: "string \<Rightarrow> string" where
  "unquote s = (if CHR ''%'' \<in> set s then unquote_runs s else s)"

definition unquote_plus :: "string \<Rightarrow> string" where
  "unquote_plus s = unquote (map (\<lambda>c. if c = CHR ''+'' then CHR '' '' else c) s)"

text \<open>One field of the query in \<open>parse_qsl\<close> (\<open>keep_blank_values\<close> and \<open>strict_parsing\<close>
  are false): an empty field, and a field whose value is empty, give nothing.\<close>

definition parse_field :: "string \<Rightarrow> (string \<times> string) list" where
  "parse_field name_value =
     (if name_value = [] then []
      else (let (name, val) = partition_at CHR ''='' name_value
            in if val = [] then [] else [(unquote_plus name, unquote_plus val)]))"

definition parse_qsl :: "string \<Rightarrow> (string \<times> string) list" where
  "parse_qsl qs = (if qs = [] then [] else concat (map parse_field (split_on CHR ''&'' qs)))"

definition parse_qs_add :: "(string \<times> string list) list \<Rightarrow> string \<times> string \<Rightarrow> (string \<times> string list) list" where
  "parse_qs_add parsed_result nv =
     (case map_of parsed_result (fst nv) of
        Some vs \<Rightarrow> AList.update (fst nv) (vs @ [snd nv]) parsed_result
      | None \<Rightarrow> parsed_result @ [(fst nv, [snd nv])])"

definition parse_qs :: "string \<Rightarrow> (string \<times> string list) list" where
  "parse_qs qs = foldl parse_qs_add [] (parse_qsl qs)"

subsection \<open>\<open>quote_plus\<close> and \<open>urlencode\<close>\<close>

definition always_safe :: "char \<Rightarrow> bool" where
  "always_safe c = (is_ascii_alpha c \<or> is_digit c \<or> c \<in> set ''_.-~'')"

text \<open>The upper-case hex digit of a number below sixteen.\<close>

definition hex_upper :: "nat \<Rightarrow> char" where
  "hex_upper n = ''0123456789ABCDEF'' ! n"

definition quoter :: "string \<Rightarrow> char \<Rightarrow> string" where
  "quoter safe b =
     (if always_safe b then [b]
      else if is_ascii b \<and> b \<in> set safe then [b]
      else [CHR ''%'', hex_upper (byte b div 16), hex_upper (byte b mod 16)])"

definition quote_from_bytes :: "bytes \<Rightarrow> string \<Rightarrow> string" where
  "quote_from_bytes bs safe = concat (map (quoter safe) bs)"

definition quote :: "string \<Rightarrow> string \<Rightarrow> string" where
  "quote s safe = quote_from_bytes (encode_utf8 s) safe"

definition quote_plus :: "string \<Rightarrow> string" where
  "quote_plus s =
     (if CHR '' '' \<in> set s
      then map (\<lambda>c. if c = CHR '' '' then CHR ''+'' else c) (quote s '' '')
      else quote s [])"

text \<open>The values of a query dict: a string, an integer, or a list of strings (what
  \<open>parse_qs\<close> gives).\<close>

datatype qvalue = VStr string | VInt int | VList "string list"

text \<open>\<open>urlencode(query, doseq=True)\<close>: a string gives one field, a value without a
  length gives the field of its \<open>str\<close>, a list gives one field for each element.\<close>

definition urlencode_item :: "string \<times> qvalue \<Rightarrow> string list" where
  "urlencode_item kv =
     (case snd kv of
        VStr v \<Rightarrow> [quote_plus (fst kv) @ ''='' @ quote_plus v]
      | VInt n \<Rightarrow> [quote_plus (fst kv) @ ''='' @ quote_plus (str_int n)]
      | VList vs \<Rightarrow> map (\<lambda>elt. quote_plus (fst kv) @ ''='' @ quote_plus elt) vs)"

definition urlencode :: "(string \<times> qvalue) list \<Rightarrow> string" where
  "urlencode query_dict = join ''&'' (concat (map urlencode_item query_dict))"

section \<open>\<open>utils.add_querystring\<close>\<close>

text \<open>\<open>dict.update\<close>: each pair of the argument replaces the value of its key, or is added
  after the pairs that are there.\<close>

definition dict_update :: "('k \<times> 'v) list \<Rightarrow> ('k \<times> 'v) list \<Rightarrow> ('k \<times> 'v) list" where
  "dict_update d new = foldl (\<lambda>acc kv. AList.update (fst kv) (snd kv) acc) d new"

definition add_querystring :: "pylib \<Rightarrow> string \<Rightarrow> (string \<times> qvalue) list \<Rightarrow> exn + string" where
  "add_querystring L url new_params =
     (case urlparse L url of
        Inl e \<Rightarrow> Inl e
      | Inr url_parts \<Rightarrow>
          (let query_dict = map (\<lambda>kv. (fst kv, VList (snd kv))) (parse_qs (query url_parts));
               query_dict = dict_update query_dict new_params;
               url_parts = url_parts\<lparr> query := urlencode query_dict \<rparr>
           in Inr (urlunparse url_parts)))"

section \<open>The client\<close>

record client =
  base_url :: string
  api_key :: string
  api_secret :: bytes

definition BASE_URL :: string where
  "BASE_URL = ''https://api.envbee.dev''"

text \<open>\<open>__init__\<close>: \<open>base_url or self.__BASE_URL\<close> takes the default for \<open>None\<close> and for
  the empty string.\<close>

definition init :: "string \<Rightarrow> bytes \<Rightarrow> string option \<Rightarrow> client" where
  "init key secret url =
     \<lparr> base_url = (case url of None \<Rightarrow> BASE_URL | Some u \<Rightarrow> if u = [] then BASE_URL else u),
       api_key = key,
       api_secret = secret \<rparr>"

text \<open>
  What one attempt of \<open>requests.get\<close> gives: a response with its status code, its text and
  the result of \<open>response.json()\<close> (\<open>None\<close> when the body does not parse), a timeout
  (\<open>requests.exceptions.Timeout\<close>), or another exception.
\<close>

datatype http_result =
    Response int string "pyval option"
  | Timeout
  | Failure string

text \<open>What the client does to the outside, in order.\<close>

datatype event =
    HttpGet string "(string \<times> string) list" int
  | CacheSet string pyval pyval
  | CacheGet string pyval
  | CacheList string

text \<open>
  The state a call runs in: the content of the cache store of each directory (key and
  value pairs in the store's order of enumeration) and the trace of events so far.
\<close>

record world =
  disk :: "string \<Rightarrow> (pyval \<times> pyval) list"
  trace :: "event list"

text \<open>
  The surroundings of a call: the library, the clock (\<open>int(time.time() * 1000)\<close>), the
  transport, and which cache accesses raise: \<open>cache_fault E n\<close> says that the access made
  when the trace has \<open>n\<close> events raises inside the store.
\<close>

record env =
  lib :: pylib
  now_ms :: int
  requests_get :: "string \<Rightarrow> (string \<times> string) list \<Rightarrow> int \<Rightarrow> http_result"
  cache_fault :: "nat \<Rightarrow> bool"

subsection \<open>\<open>_generate_hmac_header\<close>\<close>

text \<open>The \<open>hmac\<close> object: its key and the bytes fed so far; \<open>update\<close> appends,
  \<open>hexdigest\<close> is the keyed hash of all of them.\<close>

record hmac_obj =
  hkey :: bytes
  hmsg :: bytes

definition hmac_new :: "bytes \<Rightarrow> hmac_obj" where
  "hmac_new k = \<lparr> hkey = k, hmsg = [] \<rparr>"

definition hmac_update :: "hmac_obj \<Rightarrow> bytes \<Rightarrow> hmac_obj" where
  "hmac_update h b = h\<lparr> hmsg := hmsg h @ b \<rparr>"

definition hmac_hexdigest :: "pylib \<Rightarrow> hmac_obj \<Rightarrow> string" where
  "hmac_hexdigest L h = hmac_sha256_hexdigest L (hkey h) (hmsg h)"

text \<open>\<open>json.dumps({})\<close>.\<close>

definition json_dumps_empty :: string where
  "json_dumps_empty = ''{}''"

text \<open>
  The \<open>try\<close> block of \<open>_generate_hmac_header\<close>. Its \<open>except\<close> branch logs and raises
  again; on a bytes key and encodable strings nothing in the block raises, so the
  function has no error branch here.
\<close>

definition generate_hmac_header :: "env \<Rightarrow> client \<Rightarrow> string \<Rightarrow> string" where
  "generate_hmac_header E c url_path =
     (let hmac_obj = hmac_new (api_secret c);
          current_time = str_int (now_ms E);
          hmac_obj = hmac_update hmac_obj (encode_utf8 current_time);
          hmac_obj = hmac_update hmac_obj ''GET'';
          hmac_obj = hmac_update hmac_obj (encode_utf8 url_path);
          content = encode_utf8 json_dumps_empty;
          content_hash = md5_hexdigest (lib E) content;
          hmac_obj = hmac_update hmac_obj (encode_utf8 content_hash)
      in ''HMAC '' @ current_time @ '':'' @ hmac_hexdigest (lib E) hmac_obj)"

subsection \<open>\<open>_send_request\<close>\<close>

text \<open>
  One GET with the two headers. A response with status 200 returns \<open>response.json()\<close>
  (which raises when the body does not parse), another status raises \<open>RequestError\<close>,
  which the last \<open>except\<close> branch raises again; a timeout becomes
  \<open>RequestTimeoutError\<close>; any other exception is raised again as it is.
\<close>

definition send_request ::
  "env \<Rightarrow> client \<Rightarrow> string \<Rightarrow> string \<Rightarrow> int \<Rightarrow> world \<Rightarrow> (exn + pyval) \<times> world" where
  "send_request E c url hmac_header timeout w =
     (let headers = [(''Authorization'', hmac_header), (''x-api-key'', api_key c)];
          w' = w\<lparr> trace := trace w @ [HttpGet url headers timeout] \<rparr>
      in case requests_get E url headers timeout of
           Response status_code text js \<Rightarrow>
             if status_code = 200 then
               (case js of Some v \<Rightarrow> (Inr v, w') | None \<Rightarrow> (Inl JSONDecodeError, w'))
             else (Inl (RequestError status_code (''Failed request: '' @ text)), w')
         | Timeout \<Rightarrow>
             (Inl (RequestTimeoutError
                (''Request to '' @ url @ '' timed out after '' @ str_int timeout @ '' seconds'')), w')
         | Failure e \<Rightarrow> (Inl (TransportException e), w'))"

subsection \<open>The cache helpers\<close>

text \<open>
  Each helper opens the store of the directory \<open>user_cache_dir(api_key, "envbee")\<close> in a
  \<open>try\<close> block whose \<open>except\<close> branch only logs: a helper never raises. A write that
  raises leaves the store as it was. A store maps a key to one value: \<open>set\<close> replaces
  the value of a key that is there and adds a key that is not.
\<close>

definition app_cache_dir :: "env \<Rightarrow> client \<Rightarrow> string" where
  "app_cache_dir E c = user_cache_dir (lib E) (api_key c) ''envbee''"

definition cache_variable :: "env \<Rightarrow> client \<Rightarrow> pyval \<Rightarrow> pyval \<Rightarrow> world \<Rightarrow> world" where
  "cache_variable E c variable_name variable_value w =
     (let d = app_cache_dir E c;
          w' = w\<lparr> trace := trace w @ [CacheSet d variable_name variable_value] \<rparr>
      in if cache_fault E (length (trace w)) then w'
         else w'\<lparr> disk := (disk w)(d := AList.update variable_name variable_value (disk w d)) \<rparr>)"

text \<open>\<open>reference.get(key)\<close> is \<open>None\<close> for a key that is not there.\<close>

definition store_get :: "(pyval \<times> pyval) list \<Rightarrow> pyval \<Rightarrow> pyval" where
  "store_get st k = (case map_of st k of Some v \<Rightarrow> v | None \<Rightarrow> PNone)"

text \<open>The \<open>except\<close> branch of \<open>_get_variable_from_cache\<close> has no \<open>return\<close>, so a read
  that raises gives \<open>None\<close> too.\<close>

definition get_variable_from_cache :: "env \<Rightarrow> client \<Rightarrow> pyval \<Rightarrow> world \<Rightarrow> pyval \<times> world" where
  "get_variable_from_cache E c variable_name w =
     (let d = app_cache_dir E c;
          w' = w\<lparr> trace := trace w @ [CacheGet d variable_name] \<rparr>
      in if cache_fault E (length (trace w)) then (PNone, w')
         else (store_get (disk w d) variable_name, w'))"

text \<open>The list \<open>[{"name": k, "value": reference[k]} for k in list(reference)]\<close>.\<close>

definition store_entries :: "(pyval \<times> pyval) list \<Rightarrow> pyval" where
  "store_entries st = PList (map (\<lambda>kv. PDict [(''name'', fst kv), (''value'', snd kv)]) st)"

text \<open>Again the \<open>except\<close> branch has no \<open>return\<close>: a listing that raises gives
  \<open>None\<close>, not a list.\<close>

definition get_variables_from_cache :: "env \<Rightarrow> client \<Rightarrow> world \<Rightarrow> pyval \<times> world" where
  "get_variables_from_cache E c w =
     (let d = app_cache_dir E c;
          w' = w\<lparr> trace := trace w @ [CacheList d] \<rparr>
      in if cache_fault E (length (trace w)) then (PNone, w')
         else (store_entries (disk w d), w'))"

subsection \<open>\<open>get_variable\<close>\<close>

text \<open>The \<open>try\<close> block: the first exception ends it. \<open>value.get("value")\<close> is evaluated
  before the call of \<open>_cache_variable\<close>, and once more for the \<open>return\<close>.\<close>

definition get_variable_try ::
  "env \<Rightarrow> client \<Rightarrow> string \<Rightarrow> string \<Rightarrow> string \<Rightarrow> world \<Rightarrow> (exn + pyval) \<times> world" where
  "get_variable_try E c variable_name final_url hmac_header w =
     (case send_request E c final_url hmac_header 2 w of
        (Inl e, w1) \<Rightarrow> (Inl e, w1)
      | (Inr val, w1) \<Rightarrow>
          (case dict_get val ''value'' PNone of
             Inl e \<Rightarrow> (Inl e, w1)
           | Inr x \<Rightarrow>
               (let w2 = cache_variable E c (PStr variable_name) x w1
                in case dict_get val ''value'' PNone of
                     Inl e \<Rightarrow> (Inl e, w2)
                   | Inr y \<Rightarrow> (Inr y, w2))))"

definition get_variable :: "env \<Rightarrow> client \<Rightarrow> string \<Rightarrow> world \<Rightarrow> (exn + pyval) \<times> world" where
  "get_variable E c variable_name w =
     (let url_path = ''/variables-values/'' @ variable_name;
          hmac_header = generate_hmac_header E c url_path;
          final_url = base_url c @ url_path
      in case get_variable_try E c variable_name final_url hmac_header w of
           (Inr v, w') \<Rightarrow> (Inr v, w')
         | (Inl e, w') \<Rightarrow>
             (let (v, w'') = get_variable_from_cache E c (PStr variable_name) w' in (Inr v, w'')))"

subsection \<open>\<open>get_variables\<close>\<close>

text \<open>The loop \<open>for v in data: self._cache_variable(v["name"], v["value"])\<close>: the first
  element without a \<open>name\<close> or a \<open>value\<close> ends it with the exception, after the
  writes for the elements before it.\<close>

fun cache_each :: "env \<Rightarrow> client \<Rightarrow> pyval list \<Rightarrow> world \<Rightarrow> (exn + unit) \<times> world" where
  "cache_each E c [] w = (Inr (), w)"
| "cache_each E c (v # vs) w =
     (case getitem v ''name'' of
        Inl e \<Rightarrow> (Inl e, w)
      | Inr n \<Rightarrow>
          (case getitem v ''value'' of
             Inl e \<Rightarrow> (Inl e, w)
           | Inr x \<Rightarrow> cache_each E c vs (cache_variable E c n x w)))"

definition get_variables_try ::
  "env \<Rightarrow> client \<Rightarrow> string \<Rightarrow> string \<Rightarrow> world \<Rightarrow> (exn + pyval) \<times> world" where
  "get_variables_try E c final_url hmac_header w =
     (case send_request E c final_url hmac_header 2 w of
        (Inl e, w1) \<Rightarrow> (Inl e, w1)
      | (Inr body, w1) \<Rightarrow>
          (case dict_get body ''data'' (PList []) of
             Inl e \<Rightarrow> (Inl e, w1)
           | Inr data \<Rightarrow>
               (case py_iter data of
                  Inl e \<Rightarrow> (Inl e, w1)
                | Inr vs \<Rightarrow>
                    (case cache_each E c vs w1 of
                       (Inl e, w2) \<Rightarrow> (Inl e, w2)
                     | (Inr u, w2) \<Rightarrow> (Inr data, w2)))))"

text \<open>\<open>if offset:\<close> and \<open>if limit:\<close> hold for an integer other than zero.\<close>

definition query_params :: "int option \<Rightarrow> int option \<Rightarrow> (string \<times> qvalue) list" where
  "query_params offset limit =
     (let ps = [];
          ps = (case offset of
                  None \<Rightarrow> ps
                | Some n \<Rightarrow> if n \<noteq> 0 then AList.update ''offset'' (VInt n) ps else ps);
          ps = (case limit of
                  None \<Rightarrow> ps
                | Some n \<Rightarrow> if n \<noteq> 0 then AList.update ''limit'' (VInt n) ps else ps)
      in ps)"

definition get_variables ::
  "env \<Rightarrow> client \<Rightarrow> int option \<Rightarrow> int option \<Rightarrow> world \<Rightarrow> (exn + pyval) \<times> world" where
  "get_variables E c offset limit w =
     (case add_querystring (lib E) ''/variables'' (query_params offset limit) of
        Inl e \<Rightarrow> (Inl e, w)
      | Inr url_path \<Rightarrow>
          (let hmac_header = generate_hmac_header E c url_path;
               final_url = base_url c @ url_path
           in case get_variables_try E c final_url hmac_header w of
                (Inr data, w') \<Rightarrow> (Inr data, w')
              | (Inl e, w') \<Rightarrow>
                  (let (v, w'') = get_variables_from_cache E c w' in (Inr v, w''))))"

section \<open>Notions the properties are stated with\<close>

text \<open>The headers of a request for a path, and what the one remote attempt of a call for
  that path gives.\<close>

definition request_headers :: "env \<Rightarrow> client \<Rightarrow> string \<Rightarrow> (string \<times> string) list" where
  "request_headers E c url_path =
     [(''Authorization'', generate_hmac_header E c url_path), (''x-api-key'', api_key c)]"

definition remote_outcome :: "env \<Rightarrow> client \<Rightarrow> string \<Rightarrow> http_result" where
  "remote_outcome E c url_path =
     requests_get E (base_url c @ url_path) (request_headers E c url_path) 2"

text \<open>The remote attempt fails: a status other than 200, a timeout, another transport
  error, or a body that does not parse as JSON.\<close>

definition remote_failed :: "http_result \<Rightarrow> bool" where
  "remote_failed r =
     (case r of
        Response status_code text js \<Rightarrow> (if status_code = 200 then js = None else True)
      | Timeout \<Rightarrow> True
      | Failure e \<Rightarrow> True)"

text \<open>The events a call added to the trace.\<close>

definition new_events :: "world \<Rightarrow> world \<Rightarrow> event list" where
  "new_events w w' = drop (length (trace w)) (trace w')"

definition is_cache_write :: "event \<Rightarrow> bool" where
  "is_cache_write e = (case e of CacheSet d k v \<Rightarrow> True | _ \<Rightarrow> False)"

definition is_cache_read :: "event \<Rightarrow> bool" where
  "is_cache_read e = (case e of CacheGet d k \<Rightarrow> True | CacheList d \<Rightarrow> True | _ \<Rightarrow> False)"

text \<open>A stand-in library, client and state for concrete evaluation: the stand-in hashes
  show their arguments.\<close>

definition mock_lib :: pylib where
  "mock_lib =
     \<lparr> hmac_sha256_hexdigest = (\<lambda>k m. ''mac('' @ k @ '','' @ m @ '')''),
       md5_hexdigest = (\<lambda>b. ''md5('' @ b @ '')''),
       user_cache_dir = (\<lambda>appname appauthor. ''/cache/'' @ appauthor @ ''/'' @ appname),
       check_bracketed_host = (\<lambda>h. True),
       nfkc = (\<lambda>s. s) \<rparr>"

definition mock_client :: client where
  "mock_client = init ''key'' ''secret'' None"

definition empty_world :: world where
  "empty_world = \<lparr> disk = (\<lambda>d. []), trace = [] \<rparr>"

definition mock_env :: "http_result \<Rightarrow> bool \<Rightarrow> env" where
  "mock_env r faulty =
     \<lparr> lib = mock_lib, now_ms = 1700000000000,
       requests_get = (\<lambda>url headers timeout. r),
       cache_fault = (\<lambda>n. faulty) \<rparr>"

text \<open>The request path of \<open>get_variables\<close> in the words of its specification, not
  taken from the code: \<open>/variables\<close>, followed by \<open>?\<close> and the fields \<open>offset=\<close> and
  \<open>limit=\<close> of the arguments that are given and are not zero, in this order, with \<open>&\<close>
  between them.\<close>

definition spec_variables_path :: "int option \<Rightarrow> int option \<Rightarrow> string" where
  "spec_variables_path offset limit =
     (let fields =
            (case offset of None \<Rightarrow> [] | Some n \<Rightarrow> if n \<noteq> 0 then [''offset='' @ str_int n] else [])
          @ (case limit of None \<Rightarrow> [] | Some n \<Rightarrow> if n \<noteq> 0 then [''limit='' @ str_int n] else [])
      in if fields = [] then ''/variables'' else ''/variables?'' @ join ''&'' fields)"

text \<open>A response body whose second entry has no \<open>value\<close>.\<close>

definition malformed_body :: pyval where
  "malformed_body =
     PDict [(''data'', PList [PDict [(''name'', PStr ''A''), (''value'', PStr ''1'')],
                              PDict [(''name'', PStr ''B'')]])]"

text \<open>The URL that \<open>urlunparse\<close> gives without query and fragment, and the strings a
  value of a query dict is encoded from.\<close>

definition url_before_query :: "url_parts \<Rightarrow> string" where
  "url_before_query p = urlunparse (p\<lparr> query := [], fragment := [] \<rparr>)"

definition qvalue_strings :: "qvalue \<Rightarrow> string list" where
  "qvalue_strings v = (case v of VStr s \<Rightarrow> [s] | VInt n \<Rightarrow> [str_int n] | VList vs \<Rightarrow> vs)"

text \<open>
  What \<open>get_variables\<close> does to the cache after its request, in the words of its
  specification and as a function of the response alone. An entry is well formed when it
  is an object with a \<open>name\<close> and a \<open>value\<close>, and its write stores that pair.
  \<open>response_data\<close> is the \<open>data\<close> of a response with status 200 and a JSON object as
  body (the empty list when the object has no \<open>data\<close>). The cache events are one write
  for each entry before the first that is not well formed, followed by one listing of the
  cache unless the data can be iterated and every entry is well formed.
\<close>

definition entry_ok :: "pyval \<Rightarrow> bool" where
  "entry_ok v =
     (case v of
        PDict d \<Rightarrow>
          (case map_of d ''name'' of
             None \<Rightarrow> False
           | Some n \<Rightarrow> (case map_of d ''value'' of None \<Rightarrow> False | Some x \<Rightarrow> True))
      | _ \<Rightarrow> False)"

definition entry_write :: "string \<Rightarrow> pyval \<Rightarrow> event" where
  "entry_write dir v =
     CacheSet dir
       (case v of PDict d \<Rightarrow> (case map_of d ''name'' of Some n \<Rightarrow> n | None \<Rightarrow> PNone) | _ \<Rightarrow> PNone)
       (case v of PDict d \<Rightarrow> (case map_of d ''value'' of Some x \<Rightarrow> x | None \<Rightarrow> PNone) | _ \<Rightarrow> PNone)"

definition response_data :: "http_result \<Rightarrow> pyval option" where
  "response_data r =
     (case r of
        Response status_code text (Some (PDict b)) \<Rightarrow>
          if status_code = 200
          then Some (case map_of b ''data'' of Some d \<Rightarrow> d | None \<Rightarrow> PList [])
          else None
      | _ \<Rightarrow> None)"

definition spec_cache_events :: "string \<Rightarrow> http_result \<Rightarrow> event list" where
  "spec_cache_events dir r =
     (case response_data r of
        None \<Rightarrow> [CacheList dir]
      | Some data \<Rightarrow>
          (case py_iter data of
             Inl e \<Rightarrow> [CacheList dir]
           | Inr vs \<Rightarrow>
               map (entry_write dir) (takeWhile entry_ok vs)
                 @ (if list_all entry_ok vs then [] else [CacheList dir])))"

text \<open>A response body whose entries all have a \<open>name\<close> and a \<open>value\<close>.\<close>

definition wellformed_body :: pyval where
  "wellformed_body =
     PDict [(''data'', PList [PDict [(''name'', PStr ''A''), (''value'', PStr ''1'')],
                              PDict [(''name'', PStr ''B''), (''value'', PStr ''2'')]])]"

section \<open>Properties\<close>

subsection \<open>Decimal rendering\<close>

lemma str_int_mock_time: "str_int 1700000000000 = ''1700000000000''"
  by (simp add: str_int_def digits_nat.simps digit_char_def)

lemma digit_char_is_digit: "d < 10 \<Longrightarrow> is_digit (digit_char d)"
proof -
  assume "d < 10"
  then have "d = 0 \<or> d = 1 \<or> d = 2 \<or> d = 3 \<or> d = 4 \<or> d = 5 \<or> d = 6 \<or> d = 7 \<or> d = 8 \<or> d = 9"
    by arith
  then show ?thesis
    by (elim disjE) (simp_all add: digit_char_def byte_def is_digit_def)
qed

subsection \<open>The authentication header\<close>

text \<open>
  C2. For every path and every clock value, the header is \<open>HMAC t:signature\<close>, where
  \<open>t\<close> is the decimal string of the time in milliseconds and the signature is the hex
  HMAC-SHA256, keyed by the API secret, of the bytes of \<open>t\<close>, then \<open>GET\<close>, then the bytes
  of the path, then the bytes of the hex MD5 digest of \<open>{}\<close>, with nothing between them.
\<close>

theorem generate_hmac_header_format:
  "generate_hmac_header E c url_path =
     ''HMAC '' @ str_int (now_ms E) @ '':'' @
       hmac_sha256_hexdigest (lib E) (api_secret c)
         (encode_utf8 (str_int (now_ms E)) @ ''GET'' @ encode_utf8 url_path
            @ encode_utf8 (md5_hexdigest (lib E) ''{}''))"
  by (simp add: generate_hmac_header_def Let_def hmac_new_def hmac_update_def
      hmac_hexdigest_def json_dumps_empty_def encode_utf8_def)

theorem generate_hmac_header_format_witness:
  "generate_hmac_header (mock_env Timeout False) mock_client ''/variables'' =
     ''HMAC 1700000000000:mac(secret,1700000000000GET/variablesmd5({}))''"
  using generate_hmac_header_format [of "mock_env Timeout False" mock_client "''/variables''"]
  by (simp add: mock_env_def mock_client_def init_def mock_lib_def encode_utf8_def
      str_int_mock_time)

text \<open>
  C8. The header, and so the signature in it, is a function of the API secret, the path
  and the clock value (and of the two hash functions): two clients and two surroundings
  that agree on these give the same header, whatever their API key, base URL, transport
  and cache are.
\<close>

theorem signature_deterministic:
  assumes "api_secret c1 = api_secret c2"
    and "now_ms E1 = now_ms E2"
    and "hmac_sha256_hexdigest (lib E1) = hmac_sha256_hexdigest (lib E2)"
    and "md5_hexdigest (lib E1) = md5_hexdigest (lib E2)"
  shows "generate_hmac_header E1 c1 url_path = generate_hmac_header E2 c2 url_path"
  using assms
  by (simp add: generate_hmac_header_def Let_def hmac_new_def hmac_update_def
      hmac_hexdigest_def)

theorem signature_deterministic_witness:
  "generate_hmac_header (mock_env Timeout False) (init ''key'' ''secret'' None) ''/variables''
     = generate_hmac_header (mock_env (Response 500 ''down'' None) True)
         (init ''other-key'' ''secret'' (Some ''http://localhost:8080'')) ''/variables''"
  using signature_deterministic [of "init ''key'' ''secret'' None"
      "init ''other-key'' ''secret'' (Some ''http://localhost:8080'')"
      "mock_env Timeout False" "mock_env (Response 500 ''down'' None) True" "''/variables''"]
  by (simp add: mock_env_def init_def)

lemma hmac_header_unfolded:
  "generate_hmac_header E c url_path =
     ''HMAC '' @ str_int (now_ms E) @ '':'' @
       hmac_sha256_hexdigest (lib E) (api_secret c)
         (encode_utf8 (str_int (now_ms E)) @ ''GET'' @ encode_utf8 url_path
            @ encode_utf8 (md5_hexdigest (lib E) ''{}''))"
  by (simp add: generate_hmac_header_def Let_def hmac_new_def hmac_update_def
      hmac_hexdigest_def json_dumps_empty_def encode_utf8_def)

subsection \<open>What \<open>_send_request\<close> gives for the request of a path\<close>

lemma send_request_remote:
  "send_request E c (base_url c @ p) (generate_hmac_header E c p) 2 w =
     (let w' = w\<lparr> trace := trace w @ [HttpGet (base_url c @ p) (request_headers E c p) 2] \<rparr>
      in case remote_outcome E c p of
           Response status_code text js \<Rightarrow>
             if status_code = 200 then
               (case js of Some v \<Rightarrow> (Inr v, w') | None \<Rightarrow> (Inl JSONDecodeError, w'))
             else (Inl (RequestError status_code (''Failed request: '' @ text)), w')
         | Timeout \<Rightarrow>
             (Inl (RequestTimeoutError
                (''Request to '' @ base_url c @ p @ '' timed out after '' @ str_int 2 @ '' seconds'')), w')
         | Failure e \<Rightarrow> (Inl (TransportException e), w'))"
  by (simp add: send_request_def remote_outcome_def request_headers_def Let_def
      split: http_result.splits option.splits)

lemma send_request_failed:
  assumes "remote_failed (remote_outcome E c p)"
  shows "\<exists>e. send_request E c (base_url c @ p) (generate_hmac_header E c p) 2 w =
     (Inl e, w\<lparr> trace := trace w @ [HttpGet (base_url c @ p) (request_headers E c p) 2] \<rparr>)"
  using assms
  by (auto simp: send_request_remote remote_failed_def Let_def split: http_result.splits option.splits if_splits)

lemma send_request_ok:
  assumes "remote_outcome E c p = Response 200 text (Some v)"
  shows "send_request E c (base_url c @ p) (generate_hmac_header E c p) 2 w =
     (Inr v, w\<lparr> trace := trace w @ [HttpGet (base_url c @ p) (request_headers E c p) 2] \<rparr>)"
  using assms by (simp add: send_request_remote Let_def)

subsection \<open>The transport call\<close>

text \<open>
  C4, as the code has it. \<open>_send_request\<close> raises \<open>RequestError\<close> with the status code
  exactly when a response with a status other than 200 is received, raises
  \<open>RequestTimeoutError\<close> exactly when the transport times out, and returns the parsed
  JSON body exactly when the status is 200 and the body parses as JSON.
\<close>

theorem send_request_outcomes:
  "((\<exists>m. fst (send_request E c url h t w) = Inl (RequestError sc m))
      = (\<exists>text js. requests_get E url [(''Authorization'', h), (''x-api-key'', api_key c)] t
                      = Response sc text js \<and> sc \<noteq> 200))
   \<and> ((\<exists>m. fst (send_request E c url h t w) = Inl (RequestTimeoutError m))
      = (requests_get E url [(''Authorization'', h), (''x-api-key'', api_key c)] t = Timeout))
   \<and> ((fst (send_request E c url h t w) = Inr v)
      = (\<exists>text. requests_get E url [(''Authorization'', h), (''x-api-key'', api_key c)] t
                   = Response 200 text (Some v)))"
  by (cases "requests_get E url [(''Authorization'', h), (''x-api-key'', api_key c)] t")
     (auto simp: send_request_def Let_def split: option.splits)

theorem send_request_outcomes_witness:
  "(\<exists>m. fst (send_request (mock_env (Response 503 ''busy'' None) False) mock_client
            ''https://api.envbee.dev/variables'' ''h'' 2 empty_world) = Inl (RequestError 503 m))
   \<and> (\<exists>m. fst (send_request (mock_env Timeout False) mock_client
            ''https://api.envbee.dev/variables'' ''h'' 2 empty_world) = Inl (RequestTimeoutError m))
   \<and> fst (send_request (mock_env (Response 200 ''{}'' (Some (PDict []))) False) mock_client
            ''https://api.envbee.dev/variables'' ''h'' 2 empty_world) = Inr (PDict [])"
  using send_request_outcomes [of "mock_env (Response 503 ''busy'' None) False" mock_client
      "''https://api.envbee.dev/variables''" "''h''" 2 empty_world 503 PNone]
    send_request_outcomes [of "mock_env Timeout False" mock_client
      "''https://api.envbee.dev/variables''" "''h''" 2 empty_world 0 PNone]
    send_request_outcomes [of "mock_env (Response 200 ''{}'' (Some (PDict []))) False" mock_client
      "''https://api.envbee.dev/variables''" "''h''" 2 empty_world 0 "PDict []"]
  by (simp add: mock_env_def)

text \<open>
  C4 as stated fails: a response with status 200 whose body is not JSON does not return,
  it raises the decoding error of \<open>response.json()\<close>.
\<close>

theorem send_request_200_unparsable_counterexample:
  "requests_get (mock_env (Response 200 ''<html>'' None) False) ''https://api.envbee.dev/variables''
      [(''Authorization'', ''h''), (''x-api-key'', api_key mock_client)] 2 = Response 200 ''<html>'' None
   \<and> fst (send_request (mock_env (Response 200 ''<html>'' None) False) mock_client
            ''https://api.envbee.dev/variables'' ''h'' 2 empty_world) = Inl JSONDecodeError"
  by (simp add: send_request_def mock_env_def Let_def)

subsection \<open>\<open>get_variable\<close>\<close>

lemma get_variable_try_failed:
  assumes "remote_failed (remote_outcome E c p)"
  shows "\<exists>e. get_variable_try E c variable_name (base_url c @ p) (generate_hmac_header E c p) w =
     (Inl e, w\<lparr> trace := trace w @ [HttpGet (base_url c @ p) (request_headers E c p) 2] \<rparr>)"
proof -
  obtain e where "send_request E c (base_url c @ p) (generate_hmac_header E c p) 2 w =
     (Inl e, w\<lparr> trace := trace w @ [HttpGet (base_url c @ p) (request_headers E c p) 2] \<rparr>)"
    using send_request_failed [OF assms, of w] by auto
  then show ?thesis
    by (simp add: get_variable_try_def)
qed

lemma get_variable_try_dict:
  assumes "remote_outcome E c p = Response 200 text (Some (PDict d))"
  shows "get_variable_try E c variable_name (base_url c @ p) (generate_hmac_header E c p) w =
     (Inr (case map_of d ''value'' of Some x \<Rightarrow> x | None \<Rightarrow> PNone),
      cache_variable E c (PStr variable_name) (case map_of d ''value'' of Some x \<Rightarrow> x | None \<Rightarrow> PNone)
        (w\<lparr> trace := trace w @ [HttpGet (base_url c @ p) (request_headers E c p) 2] \<rparr>))"
  by (simp add: get_variable_try_def send_request_ok [OF assms] dict_get_def Let_def)

lemma get_variable_dict:
  assumes "remote_outcome E c (''/variables-values/'' @ variable_name) = Response 200 text (Some (PDict d))"
  shows "get_variable E c variable_name w =
     (Inr (case map_of d ''value'' of Some x \<Rightarrow> x | None \<Rightarrow> PNone),
      cache_variable E c (PStr variable_name) (case map_of d ''value'' of Some x \<Rightarrow> x | None \<Rightarrow> PNone)
        (w\<lparr> trace := trace w @ [HttpGet (base_url c @ ''/variables-values/'' @ variable_name)
           (request_headers E c (''/variables-values/'' @ variable_name)) 2] \<rparr>))"
  unfolding get_variable_def Let_def get_variable_try_dict [OF assms] by simp

lemma get_variable_failed:
  assumes "remote_failed (remote_outcome E c (''/variables-values/'' @ variable_name))"
  shows "get_variable E c variable_name w =
     (Inr (fst (get_variable_from_cache E c (PStr variable_name)
             (w\<lparr> trace := trace w @ [HttpGet (base_url c @ ''/variables-values/'' @ variable_name)
                (request_headers E c (''/variables-values/'' @ variable_name)) 2] \<rparr>))),
      snd (get_variable_from_cache E c (PStr variable_name)
             (w\<lparr> trace := trace w @ [HttpGet (base_url c @ ''/variables-values/'' @ variable_name)
                (request_headers E c (''/variables-values/'' @ variable_name)) 2] \<rparr>)))"
proof -
  obtain e where "get_variable_try E c variable_name (base_url c @ ''/variables-values/'' @ variable_name)
      (generate_hmac_header E c (''/variables-values/'' @ variable_name)) w =
     (Inl e, w\<lparr> trace := trace w @ [HttpGet (base_url c @ ''/variables-values/'' @ variable_name)
        (request_headers E c (''/variables-values/'' @ variable_name)) 2] \<rparr>)"
    using get_variable_try_failed [OF assms] by blast
  then show ?thesis
    unfolding get_variable_def Let_def by (simp add: case_prod_beta)
qed

text \<open>
  C1. When the remote attempt of \<open>get_variable\<close> fails (a status other than 200, a
  timeout, another transport error, or a body that is not JSON), the call does not raise:
  it returns what the cache read gives for the name, which is the cached value, and
  \<open>None\<close> when the name is not cached (or when the read itself raises).
\<close>

theorem get_variable_falls_back:
  assumes "remote_failed (remote_outcome E c (''/variables-values/'' @ variable_name))"
  shows "fst (get_variable E c variable_name w) =
           Inr (if cache_fault E (Suc (length (trace w))) then PNone
                else store_get (disk w (app_cache_dir E c)) (PStr variable_name))
         \<and> (map_of (disk w (app_cache_dir E c)) (PStr variable_name) = None
              \<longrightarrow> fst (get_variable E c variable_name w) = Inr PNone)"
  unfolding get_variable_failed [OF assms]
  by (simp add: get_variable_from_cache_def Let_def store_get_def)

theorem get_variable_falls_back_witness:
  "fst (get_variable (mock_env Timeout False) mock_client ''DB_URL'' empty_world) = Inr PNone
   \<and> fst (get_variable (mock_env (Response 500 ''oops'' None) False) mock_client ''DB_URL''
        (empty_world\<lparr> disk := (\<lambda>d. [(PStr ''DB_URL'', PStr ''cached-x'')]) \<rparr>)) = Inr (PStr ''cached-x'')"
  using get_variable_falls_back [of "mock_env Timeout False" mock_client "''DB_URL''" empty_world]
    get_variable_falls_back [of "mock_env (Response 500 ''oops'' None) False" mock_client "''DB_URL''"
      "empty_world\<lparr> disk := (\<lambda>d. [(PStr ''DB_URL'', PStr ''cached-x'')]) \<rparr>"]
  by (simp add: remote_failed_def remote_outcome_def mock_env_def empty_world_def store_get_def)

text \<open>
  C6. When the remote GET returns status 200 with a JSON object whose \<open>value\<close> is \<open>x\<close>,
  \<open>get_variable\<close> returns \<open>x\<close>, and after the request its only access to the cache is
  one write of the pair of the name and \<open>x\<close>, which the store then holds unless the
  write raised.
\<close>

theorem get_variable_success:
  assumes "remote_outcome E c (''/variables-values/'' @ variable_name) = Response 200 text (Some (PDict d))"
    and "map_of d ''value'' = Some x"
  shows "fst (get_variable E c variable_name w) = Inr x
         \<and> new_events w (snd (get_variable E c variable_name w)) =
             [HttpGet (base_url c @ ''/variables-values/'' @ variable_name)
                (request_headers E c (''/variables-values/'' @ variable_name)) 2,
              CacheSet (app_cache_dir E c) (PStr variable_name) x]
         \<and> (\<not> cache_fault E (Suc (length (trace w)))
              \<longrightarrow> disk (snd (get_variable E c variable_name w)) =
                    (disk w)(app_cache_dir E c :=
                       AList.update (PStr variable_name) x (disk w (app_cache_dir E c))))"
  unfolding get_variable_dict [OF assms(1)] using assms(2)
  by (simp add: cache_variable_def new_events_def Let_def)

theorem get_variable_success_witness:
  "fst (get_variable (mock_env (Response 200 ''{\"value\": \"x\"}'' (Some (PDict [(''value'', PStr ''x'')]))) False)
          mock_client ''DB_URL'' empty_world) = Inr (PStr ''x'')
   \<and> new_events empty_world
        (snd (get_variable (mock_env (Response 200 ''{\"value\": \"x\"}'' (Some (PDict [(''value'', PStr ''x'')]))) False)
          mock_client ''DB_URL'' empty_world)) =
      [HttpGet ''https://api.envbee.dev/variables-values/DB_URL''
         [(''Authorization'', ''HMAC 1700000000000:mac(secret,1700000000000GET/variables-values/DB_URLmd5({}))''),
          (''x-api-key'', ''key'')] 2,
       CacheSet ''/cache/envbee/key'' (PStr ''DB_URL'') (PStr ''x'')]
   \<and> disk (snd (get_variable (mock_env (Response 200 ''{\"value\": \"x\"}'' (Some (PDict [(''value'', PStr ''x'')]))) False)
          mock_client ''DB_URL'' empty_world)) ''/cache/envbee/key'' = [(PStr ''DB_URL'', PStr ''x'')]"
  using get_variable_success [of "mock_env (Response 200 ''{\"value\": \"x\"}'' (Some (PDict [(''value'', PStr ''x'')]))) False"
      mock_client "''DB_URL''" "''{\"value\": \"x\"}''" "[(''value'', PStr ''x'')]" "PStr ''x''" empty_world]
  by (simp add: remote_outcome_def mock_env_def empty_world_def mock_client_def init_def BASE_URL_def
      request_headers_def hmac_header_unfolded mock_lib_def encode_utf8_def str_int_mock_time
      app_cache_dir_def)

text \<open>
  C10. When the remote GET returns status 200 with a JSON object that has no \<open>value\<close>
  field, \<open>get_variable\<close> does not read the cache: it writes the pair of the name and
  \<open>None\<close> and returns \<open>None\<close>.
\<close>

theorem get_variable_no_value_field:
  assumes "remote_outcome E c (''/variables-values/'' @ variable_name) = Response 200 text (Some (PDict d))"
    and "map_of d ''value'' = None"
  shows "fst (get_variable E c variable_name w) = Inr PNone
         \<and> new_events w (snd (get_variable E c variable_name w)) =
             [HttpGet (base_url c @ ''/variables-values/'' @ variable_name)
                (request_headers E c (''/variables-values/'' @ variable_name)) 2,
              CacheSet (app_cache_dir E c) (PStr variable_name) PNone]
         \<and> (\<not> cache_fault E (Suc (length (trace w)))
              \<longrightarrow> disk (snd (get_variable E c variable_name w)) =
                    (disk w)(app_cache_dir E c :=
                       AList.update (PStr variable_name) PNone (disk w (app_cache_dir E c))))"
  unfolding get_variable_dict [OF assms(1)] using assms(2)
  by (simp add: cache_variable_def new_events_def Let_def)

theorem get_variable_no_value_field_witness:
  "fst (get_variable (mock_env (Response 200 ''{\"name\": \"DB_URL\"}'' (Some (PDict [(''name'', PStr ''DB_URL'')]))) False)
          mock_client ''DB_URL'' empty_world) = Inr PNone
   \<and> new_events empty_world
        (snd (get_variable (mock_env (Response 200 ''{\"name\": \"DB_URL\"}'' (Some (PDict [(''name'', PStr ''DB_URL'')]))) False)
          mock_client ''DB_URL'' empty_world)) =
      [HttpGet ''https://api.envbee.dev/variables-values/DB_URL''
         [(''Authorization'', ''HMAC 1700000000000:mac(secret,1700000000000GET/variables-values/DB_URLmd5({}))''),
          (''x-api-key'', ''key'')] 2,
       CacheSet ''/cache/envbee/key'' (PStr ''DB_URL'') PNone]
   \<and> disk (snd (get_variable (mock_env (Response 200 ''{\"name\": \"DB_URL\"}'' (Some (PDict [(''name'', PStr ''DB_URL'')]))) False)
          mock_client ''DB_URL'' empty_world)) ''/cache/envbee/key'' = [(PStr ''DB_URL'', PNone)]"
  using get_variable_no_value_field [of "mock_env (Response 200 ''{\"name\": \"DB_URL\"}'' (Some (PDict [(''name'', PStr ''DB_URL'')]))) False"
      mock_client "''DB_URL''" "''{\"name\": \"DB_URL\"}''" "[(''name'', PStr ''DB_URL'')]" empty_world]
  by (simp add: remote_outcome_def mock_env_def empty_world_def mock_client_def init_def BASE_URL_def
      request_headers_def hmac_header_unfolded mock_lib_def encode_utf8_def str_int_mock_time
      app_cache_dir_def)

subsection \<open>The request path of \<open>get_variables\<close>\<close>

lemma urlparse_variables:
  "urlparse L ''/variables'' =
     Inr \<lparr> scheme = [], netloc = [], path = ''/variables'', params = [], query = [], fragment = [] \<rparr>"
  by (simp add: urlparse_def urlsplit_def Let_def is_c0_or_space_def byte_def is_unsafe_byte_def
      has_scheme_def checknetloc_def uses_params_def)

lemma parse_qs_empty: "parse_qs [] = []"
  by (simp add: parse_qs_def parse_qsl_def)

lemma digits_nat_digits: "list_all is_digit (digits_nat n)"
proof (induction n rule: digits_nat.induct)
  case (1 n)
  show ?case
  proof (cases "n < 10")
    case True
    then show ?thesis by (subst digits_nat.simps) (simp add: digit_char_is_digit)
  next
    case False
    then show ?thesis using 1 by (subst digits_nat.simps) (simp add: digit_char_is_digit)
  qed
qed

lemma digits_nat_nonempty: "digits_nat n \<noteq> []"
  by (subst digits_nat.simps) simp

lemma str_int_safe: "list_all always_safe (str_int i)"
proof -
  have "list_all always_safe (digits_nat n)" for n
    using digits_nat_digits [of n] by (simp add: list_all_iff always_safe_def)
  then show ?thesis
    by (simp add: str_int_def always_safe_def)
qed

lemma quote_safe: "list_all always_safe s \<Longrightarrow> quote s safe = s"
  by (induction s) (simp_all add: quote_def quote_from_bytes_def quoter_def encode_utf8_def)

lemma space_not_safe: "list_all always_safe s \<Longrightarrow> CHR '' '' \<notin> set s"
  by (auto simp: list_all_iff always_safe_def is_ascii_alpha_def is_digit_def byte_def)

lemma quote_plus_safe: "list_all always_safe s \<Longrightarrow> quote_plus s = s"
  by (simp add: quote_plus_def quote_safe space_not_safe)

lemma quote_plus_offset: "quote_plus ''offset'' = ''offset''"
  by (rule quote_plus_safe) (simp add: always_safe_def is_ascii_alpha_def byte_def)

lemma quote_plus_limit: "quote_plus ''limit'' = ''limit''"
  by (rule quote_plus_safe) (simp add: always_safe_def is_ascii_alpha_def byte_def)

lemma add_querystring_variables:
  "add_querystring L ''/variables'' (query_params offset limit) = Inr (spec_variables_path offset limit)"
  by (cases offset; cases limit)
     (simp_all add: add_querystring_def urlparse_variables parse_qs_empty query_params_def Let_def
        dict_update_def urlencode_def urlencode_item_def quote_plus_offset quote_plus_limit
        quote_plus_safe str_int_safe urlunparse_def urlunsplit_def spec_variables_path_def)


subsection \<open>\<open>get_variables\<close>\<close>

lemma get_variables_unfolded:
  "get_variables E c offset limit w =
     (case get_variables_try E c (base_url c @ spec_variables_path offset limit)
             (generate_hmac_header E c (spec_variables_path offset limit)) w of
        (Inr data, w') \<Rightarrow> (Inr data, w')
      | (Inl e, w') \<Rightarrow> (Inr (fst (get_variables_from_cache E c w')), snd (get_variables_from_cache E c w')))"
  by (simp add: get_variables_def add_querystring_variables Let_def case_prod_beta
      split: prod.splits sum.splits)

lemma cache_variable_trace:
  "trace (cache_variable E c n x w) = trace w @ [CacheSet (app_cache_dir E c) n x]"
  by (simp add: cache_variable_def Let_def)

lemma cache_each_trace:
  "\<exists>evs. trace (snd (cache_each E c vs w)) = trace w @ evs \<and> list_all is_cache_write evs"
proof (induction vs arbitrary: w)
  case Nil
  then show ?case by simp
next
  case (Cons v vs)
  show ?case
  proof (cases "getitem v ''name''")
    case (Inl e)
    then show ?thesis by simp
  next
    case name: (Inr n)
    show ?thesis
    proof (cases "getitem v ''value''")
      case (Inl e)
      then show ?thesis using name by simp
    next
      case val: (Inr x)
      obtain evs where "trace (snd (cache_each E c vs (cache_variable E c n x w)))
          = trace (cache_variable E c n x w) @ evs" and "list_all is_cache_write evs"
        using Cons.IH by blast
      then have "trace (snd (cache_each E c (v # vs) w))
          = trace w @ (CacheSet (app_cache_dir E c) n x # evs)
        \<and> list_all is_cache_write (CacheSet (app_cache_dir E c) n x # evs)"
        using name val by (simp add: cache_variable_trace is_cache_write_def)
      then show ?thesis by blast
    qed
  qed
qed

lemma get_variables_try_failed:
  assumes "remote_failed (remote_outcome E c p)"
  shows "\<exists>e. get_variables_try E c (base_url c @ p) (generate_hmac_header E c p) w =
     (Inl e, w\<lparr> trace := trace w @ [HttpGet (base_url c @ p) (request_headers E c p) 2] \<rparr>)"
proof -
  obtain e where "send_request E c (base_url c @ p) (generate_hmac_header E c p) 2 w =
     (Inl e, w\<lparr> trace := trace w @ [HttpGet (base_url c @ p) (request_headers E c p) 2] \<rparr>)"
    using send_request_failed [OF assms, of w] by auto
  then show ?thesis
    by (simp add: get_variables_try_def)
qed

lemma get_variables_try_trace:
  "\<exists>evs. trace (snd (get_variables_try E c (base_url c @ p) (generate_hmac_header E c p) w))
       = trace w @ HttpGet (base_url c @ p) (request_headers E c p) 2 # evs
     \<and> list_all is_cache_write evs
     \<and> (evs \<noteq> [] \<longrightarrow> (\<exists>text v. remote_outcome E c p = Response 200 text (Some v)))"
proof (cases "remote_failed (remote_outcome E c p)")
  case True
  then obtain e where "get_variables_try E c (base_url c @ p) (generate_hmac_header E c p) w =
     (Inl e, w\<lparr> trace := trace w @ [HttpGet (base_url c @ p) (request_headers E c p) 2] \<rparr>)"
    using get_variables_try_failed by blast
  then show ?thesis by simp
next
  case False
  then obtain tx v where ok: "remote_outcome E c p = Response 200 tx (Some v)"
    by (auto simp: remote_failed_def split: http_result.splits if_splits)
  define w1 where "w1 = w\<lparr> trace := trace w @ [HttpGet (base_url c @ p) (request_headers E c p) 2] \<rparr>"
  have sr: "send_request E c (base_url c @ p) (generate_hmac_header E c p) 2 w = (Inr v, w1)"
    unfolding w1_def by (rule send_request_ok [OF ok])
  have t1: "trace w1 = trace w @ [HttpGet (base_url c @ p) (request_headers E c p) 2]"
    by (simp add: w1_def)
  show ?thesis
  proof (cases "dict_get v ''data'' (PList [])")
    case (Inl e)
    then show ?thesis by (simp add: get_variables_try_def sr t1)
  next
    case data: (Inr data)
    show ?thesis
    proof (cases "py_iter data")
      case (Inl e)
      then show ?thesis by (simp add: get_variables_try_def sr t1 data)
    next
      case vs: (Inr vs)
      obtain evs where evs: "trace (snd (cache_each E c vs w1)) = trace w1 @ evs"
          "list_all is_cache_write evs"
        using cache_each_trace by blast
      have "trace (snd (get_variables_try E c (base_url c @ p) (generate_hmac_header E c p) w))
          = trace (snd (cache_each E c vs w1))"
        by (simp add: get_variables_try_def sr data vs split: prod.splits sum.splits)
      then show ?thesis using evs t1 ok by auto
    qed
  qed
qed

lemma get_variables_events:
  "\<exists>writes reads.
      new_events w (snd (get_variables E c offset limit w)) =
        HttpGet (base_url c @ spec_variables_path offset limit)
          (request_headers E c (spec_variables_path offset limit)) 2 # writes @ reads
    \<and> list_all is_cache_write writes
    \<and> (writes \<noteq> [] \<longrightarrow>
          (\<exists>text v. remote_outcome E c (spec_variables_path offset limit) = Response 200 text (Some v)))
    \<and> reads = (case fst (get_variables_try E c (base_url c @ spec_variables_path offset limit)
                       (generate_hmac_header E c (spec_variables_path offset limit)) w) of
                  Inr data \<Rightarrow> [] | Inl e \<Rightarrow> [CacheList (app_cache_dir E c)])"
proof -
  define p where "p = spec_variables_path offset limit"
  obtain evs where evs: "trace (snd (get_variables_try E c (base_url c @ p) (generate_hmac_header E c p) w))
       = trace w @ HttpGet (base_url c @ p) (request_headers E c p) 2 # evs"
     "list_all is_cache_write evs"
     "evs \<noteq> [] \<longrightarrow> (\<exists>text v. remote_outcome E c p = Response 200 text (Some v))"
    using get_variables_try_trace by blast
  obtain r w' where tr: "get_variables_try E c (base_url c @ p) (generate_hmac_header E c p) w = (r, w')"
    by (cases "get_variables_try E c (base_url c @ p) (generate_hmac_header E c p) w")
  have "new_events w (snd (get_variables E c offset limit w)) =
        HttpGet (base_url c @ p) (request_headers E c p) 2 # evs @
          (case r of Inr data \<Rightarrow> [] | Inl e \<Rightarrow> [CacheList (app_cache_dir E c)])"
    using evs(1) tr
    by (cases r) (simp_all add: get_variables_unfolded new_events_def p_def [symmetric]
        get_variables_from_cache_def Let_def)
  then show ?thesis using evs(2,3) tr unfolding p_def by auto
qed


lemma get_variables_first_event:
  "take 1 (new_events w (snd (get_variables E c offset limit w))) =
     [HttpGet (base_url c @ spec_variables_path offset limit)
        (request_headers E c (spec_variables_path offset limit)) 2]"
  using get_variables_events [of w E c offset limit] by auto

lemma mock_request:
  "HttpGet (base_url mock_client @ p) (request_headers (mock_env r f) mock_client p) 2 =
     HttpGet (''https://api.envbee.dev'' @ p)
       [(''Authorization'', ''HMAC 1700000000000:mac(secret,1700000000000GET'' @ p @ ''md5({}))''),
        (''x-api-key'', ''key'')] 2"
  by (simp add: mock_client_def init_def BASE_URL_def request_headers_def hmac_header_unfolded
      mock_env_def mock_lib_def encode_utf8_def str_int_mock_time)

lemma str_int_small: "str_int 10 = ''10''" "str_int 5 = ''5''"
  by (simp_all add: str_int_def digits_nat.simps digit_char_def)

text \<open>
  C3, as the code has it. The request of \<open>get_variables\<close> goes to the path
  \<open>/variables\<close> with \<open>offset\<close> and \<open>limit\<close> appended as query parameters, each exactly
  when it is given and is not zero; the header signs the same path. For \<open>offset=10\<close> and
  \<open>limit=5\<close> the path is \<open>/variables?offset=10&limit=5\<close>.
\<close>

theorem get_variables_request_path:
  "take 1 (new_events w (snd (get_variables E c offset limit w))) =
     [HttpGet (base_url c @ spec_variables_path offset limit)
        (request_headers E c (spec_variables_path offset limit)) 2]
   \<and> spec_variables_path (Some 10) (Some 5) = ''/variables?offset=10&limit=5''"
  using get_variables_events [of w E c offset limit]
  by (auto simp: spec_variables_path_def str_int_small)

theorem get_variables_request_path_witness:
  "take 1 (new_events empty_world
      (snd (get_variables (mock_env Timeout False) mock_client (Some 10) (Some 5) empty_world))) =
     [HttpGet ''https://api.envbee.dev/variables?offset=10&limit=5''
       [(''Authorization'',
         ''HMAC 1700000000000:mac(secret,1700000000000GET/variables?offset=10&limit=5md5({}))''),
        (''x-api-key'', ''key'')] 2]"
  using get_variables_request_path [of empty_world "mock_env Timeout False" mock_client "Some 10" "Some 5"]
  by (simp add: mock_request)

text \<open>
  C3 as stated fails: with \<open>offset=0\<close> and \<open>limit=5\<close> the offset is given, and the
  request path holds no \<open>offset\<close> parameter, since \<open>if offset:\<close> is false for zero.
\<close>

theorem get_variables_offset_zero_counterexample:
  "take 1 (new_events empty_world
      (snd (get_variables (mock_env Timeout False) mock_client (Some 0) (Some 5) empty_world))) =
     [HttpGet ''https://api.envbee.dev/variables?limit=5''
       [(''Authorization'',
         ''HMAC 1700000000000:mac(secret,1700000000000GET/variables?limit=5md5({}))''),
        (''x-api-key'', ''key'')] 2]"
  using get_variables_first_event [of empty_world "mock_env Timeout False" mock_client "Some 0" "Some 5"]
  by (simp add: mock_request spec_variables_path_def str_int_small)

lemma get_variables_falls_back:
  assumes "remote_failed (remote_outcome E c (spec_variables_path offset limit))"
  shows "fst (get_variables E c offset limit w) =
           Inr (if cache_fault E (Suc (length (trace w))) then PNone
                else store_entries (disk w (app_cache_dir E c)))"
proof -
  obtain e where "get_variables_try E c (base_url c @ spec_variables_path offset limit)
      (generate_hmac_header E c (spec_variables_path offset limit)) w =
     (Inl e, w\<lparr> trace := trace w @ [HttpGet (base_url c @ spec_variables_path offset limit)
        (request_headers E c (spec_variables_path offset limit)) 2] \<rparr>)"
    using get_variables_try_failed [OF assms] by blast
  then show ?thesis
    by (simp add: get_variables_unfolded get_variables_from_cache_def Let_def)
qed

text \<open>
  C5. With a failed remote attempt \<open>get_variables\<close> returns the content of the cache
  as a list (\<open>get_variables_falls_back\<close>). When the listing itself raises, the call
  returns without raising, but what it returns is \<open>None\<close>, where an empty cache gives the
  empty list: the \<open>except\<close> branch of \<open>_get_variables_from_cache\<close> has no \<open>return\<close>.
\<close>

theorem get_variables_cache_failure_returns_none:
  "fst (get_variables (mock_env Timeout True) mock_client None None empty_world) = Inr PNone
   \<and> fst (get_variables (mock_env Timeout False) mock_client None None empty_world) = Inr (PList [])"
  using get_variables_falls_back [of "mock_env Timeout True" mock_client None None empty_world]
    get_variables_falls_back [of "mock_env Timeout False" mock_client None None empty_world]
  by (simp add: remote_failed_def remote_outcome_def mock_env_def empty_world_def store_entries_def)

lemma get_variable_try_not_dict:
  assumes "remote_outcome E c p = Response 200 tx (Some v)"
    and "dict_get v ''value'' PNone = Inl AttributeError"
  shows "get_variable_try E c variable_name (base_url c @ p) (generate_hmac_header E c p) w =
     (Inl AttributeError,
      w\<lparr> trace := trace w @ [HttpGet (base_url c @ p) (request_headers E c p) 2] \<rparr>)"
  by (simp add: get_variable_try_def send_request_ok [OF assms(1)] assms(2))

lemma get_variable_events:
  "new_events w (snd (get_variable E c variable_name w)) =
     (case remote_outcome E c (''/variables-values/'' @ variable_name) of
        Response status_code text (Some (PDict d)) \<Rightarrow>
          if status_code = 200 then
            [HttpGet (base_url c @ ''/variables-values/'' @ variable_name)
               (request_headers E c (''/variables-values/'' @ variable_name)) 2,
             CacheSet (app_cache_dir E c) (PStr variable_name)
               (case map_of d ''value'' of Some x \<Rightarrow> x | None \<Rightarrow> PNone)]
          else
            [HttpGet (base_url c @ ''/variables-values/'' @ variable_name)
               (request_headers E c (''/variables-values/'' @ variable_name)) 2,
             CacheGet (app_cache_dir E c) (PStr variable_name)]
      | _ \<Rightarrow>
          [HttpGet (base_url c @ ''/variables-values/'' @ variable_name)
             (request_headers E c (''/variables-values/'' @ variable_name)) 2,
           CacheGet (app_cache_dir E c) (PStr variable_name)])"
proof (cases "remote_failed (remote_outcome E c (''/variables-values/'' @ variable_name))")
  case True
  show ?thesis
    unfolding get_variable_failed [OF True] using True
    by (auto simp: get_variable_from_cache_def Let_def new_events_def remote_failed_def
        split: http_result.splits option.splits pyval.splits if_splits)
next
  case False
  then obtain tx v where ok: "remote_outcome E c (''/variables-values/'' @ variable_name) = Response 200 tx (Some v)"
    by (auto simp: remote_failed_def split: http_result.splits if_splits)
  show ?thesis
  proof (cases "\<exists>d. v = PDict d")
    case True
    then obtain d where "v = PDict d" by blast
    then show ?thesis
      using ok get_variable_dict [of E c variable_name tx d w]
      by (simp add: cache_variable_def Let_def new_events_def)
  next
    case False
    then have dg: "dict_get v ''value'' PNone = Inl AttributeError"
      by (cases v) (simp_all add: dict_get_def)
    have "new_events w (snd (get_variable E c variable_name w)) =
        [HttpGet (base_url c @ ''/variables-values/'' @ variable_name)
             (request_headers E c (''/variables-values/'' @ variable_name)) 2,
           CacheGet (app_cache_dir E c) (PStr variable_name)]"
      unfolding get_variable_def Let_def get_variable_try_not_dict [OF ok dg]
      by (simp add: get_variable_from_cache_def Let_def new_events_def case_prod_beta)
    then show ?thesis using ok False by (cases v) simp_all
  qed
qed

lemma spec_variables_path_none: "spec_variables_path None None = ''/variables''"
  by (simp add: spec_variables_path_def)

text \<open>
  C9 as stated fails: on a response with status 200 whose second entry has no \<open>value\<close>,
  one call of \<open>get_variables\<close> writes the first entry to the cache and then reads the
  cache, and returns what it read.
\<close>

theorem get_variables_write_then_read_counterexample:
  "new_events empty_world
      (snd (get_variables (mock_env (Response 200 ''body'' (Some malformed_body)) False)
              mock_client None None empty_world)) =
     [HttpGet ''https://api.envbee.dev/variables''
        [(''Authorization'', ''HMAC 1700000000000:mac(secret,1700000000000GET/variablesmd5({}))''),
         (''x-api-key'', ''key'')] 2,
      CacheSet ''/cache/envbee/key'' (PStr ''A'') (PStr ''1''),
      CacheList ''/cache/envbee/key'']
   \<and> fst (get_variables (mock_env (Response 200 ''body'' (Some malformed_body)) False)
              mock_client None None empty_world) =
       Inr (PList [PDict [(''name'', PStr ''A''), (''value'', PStr ''1'')]])"
proof -
  have ok: "remote_outcome (mock_env (Response 200 ''body'' (Some malformed_body)) False) mock_client
      ''/variables'' = Response 200 ''body'' (Some malformed_body)"
    by (simp add: remote_outcome_def mock_env_def)
  show ?thesis
    unfolding get_variables_unfolded spec_variables_path_none get_variables_try_def
      send_request_ok [OF ok]
    using mock_request [of "''/variables''" "Response 200 ''body'' (Some malformed_body)" False]
    by (simp add: malformed_body_def dict_get_def py_iter_def getitem_def cache_variable_def
        get_variables_from_cache_def Let_def new_events_def empty_world_def store_entries_def
        app_cache_dir_def mock_env_def mock_lib_def mock_client_def init_def)
qed

lemma getitem_entry:
  "entry_ok v \<Longrightarrow>
     \<exists>n x. getitem v ''name'' = Inr n \<and> getitem v ''value'' = Inr x
        \<and> entry_write dir v = CacheSet dir n x"
  by (auto simp: entry_ok_def getitem_def entry_write_def split: pyval.splits option.splits)

lemma getitem_not_entry:
  "\<not> entry_ok v \<Longrightarrow>
     (\<exists>e. getitem v ''name'' = Inl e)
     \<or> (\<exists>n e. getitem v ''name'' = Inr n \<and> getitem v ''value'' = Inl e)"
  by (auto simp: entry_ok_def getitem_def split: pyval.splits option.splits)

lemma cache_each_exact:
  "trace (snd (cache_each E c vs w)) =
     trace w @ map (entry_write (app_cache_dir E c)) (takeWhile entry_ok vs)
   \<and> (if list_all entry_ok vs then fst (cache_each E c vs w) = Inr ()
       else (\<exists>e. fst (cache_each E c vs w) = Inl e))"
proof (induction vs arbitrary: w)
  case Nil
  then show ?case by simp
next
  case (Cons v vs)
  show ?case
  proof (cases "entry_ok v")
    case True
    then obtain n x where g: "getitem v ''name'' = Inr n" "getitem v ''value'' = Inr x"
        "entry_write (app_cache_dir E c) v = CacheSet (app_cache_dir E c) n x"
      using getitem_entry by blast
    show ?thesis
      using Cons.IH [of "cache_variable E c n x w"] True g
      by (simp add: cache_variable_trace)
  next
    case False
    then show ?thesis
      using getitem_not_entry [OF False] by auto
  qed
qed

lemma response_data_Some:
  "response_data r = Some data \<Longrightarrow>
     \<exists>tx b. r = Response 200 tx (Some (PDict b))
        \<and> dict_get (PDict b) ''data'' (PList []) = Inr data"
  by (auto simp: response_data_def dict_get_def split: http_result.splits option.splits pyval.splits if_splits)

lemma response_data_None:
  "response_data r = None \<Longrightarrow>
     remote_failed r \<or> (\<exists>tx v. r = Response 200 tx (Some v) \<and> dict_get v ''data'' (PList []) = Inl AttributeError)"
  by (auto simp: response_data_def dict_get_def remote_failed_def
      split: http_result.splits option.splits pyval.splits if_splits)

lemma get_variables_try_exact:
  "trace (snd (get_variables_try E c (base_url c @ p) (generate_hmac_header E c p) w)) =
     trace w @ HttpGet (base_url c @ p) (request_headers E c p) 2 #
       (case response_data (remote_outcome E c p) of
          None \<Rightarrow> []
        | Some data \<Rightarrow>
            (case py_iter data of
               Inl e \<Rightarrow> []
             | Inr vs \<Rightarrow> map (entry_write (app_cache_dir E c)) (takeWhile entry_ok vs)))
   \<and> (case response_data (remote_outcome E c p) of
          None \<Rightarrow> (\<exists>e. fst (get_variables_try E c (base_url c @ p) (generate_hmac_header E c p) w) = Inl e)
        | Some data \<Rightarrow>
            (case py_iter data of
               Inl e' \<Rightarrow>
                 (\<exists>e. fst (get_variables_try E c (base_url c @ p) (generate_hmac_header E c p) w) = Inl e)
             | Inr vs \<Rightarrow>
                 if list_all entry_ok vs
                 then fst (get_variables_try E c (base_url c @ p) (generate_hmac_header E c p) w) = Inr data
                 else (\<exists>e. fst (get_variables_try E c (base_url c @ p) (generate_hmac_header E c p) w) = Inl e)))"
proof (cases "response_data (remote_outcome E c p)")
  case None
  from response_data_None [OF None] show ?thesis
  proof
    assume "remote_failed (remote_outcome E c p)"
    then obtain e where "get_variables_try E c (base_url c @ p) (generate_hmac_header E c p) w =
       (Inl e, w\<lparr> trace := trace w @ [HttpGet (base_url c @ p) (request_headers E c p) 2] \<rparr>)"
      using get_variables_try_failed by blast
    then show ?thesis using None by simp
  next
    assume "\<exists>tx v. remote_outcome E c p = Response 200 tx (Some v)
        \<and> dict_get v ''data'' (PList []) = Inl AttributeError"
    then obtain tx v where ok: "remote_outcome E c p = Response 200 tx (Some v)"
      and dg: "dict_get v ''data'' (PList []) = Inl AttributeError" by blast
    show ?thesis
      using None by (simp add: get_variables_try_def send_request_ok [OF ok] dg)
  qed
next
  case (Some data)
  then obtain tx b where ok: "remote_outcome E c p = Response 200 tx (Some (PDict b))"
    and dg: "dict_get (PDict b) ''data'' (PList []) = Inr data"
    using response_data_Some by blast
  show ?thesis
  proof (cases "py_iter data")
    case (Inl e)
    then show ?thesis
      using Some by (simp add: get_variables_try_def send_request_ok [OF ok] dg)
  next
    case (Inr vs)
    define w1 where "w1 = w\<lparr> trace := trace w @ [HttpGet (base_url c @ p) (request_headers E c p) 2] \<rparr>"
    have ce: "trace (snd (cache_each E c vs w1)) =
        trace w1 @ map (entry_write (app_cache_dir E c)) (takeWhile entry_ok vs)"
      and cr: "if list_all entry_ok vs then fst (cache_each E c vs w1) = Inr ()
               else (\<exists>e. fst (cache_each E c vs w1) = Inl e)"
      using cache_each_exact [of E c vs w1] by auto
    have gt: "get_variables_try E c (base_url c @ p) (generate_hmac_header E c p) w =
        (case cache_each E c vs w1 of (Inl e, w2) \<Rightarrow> (Inl e, w2) | (Inr u, w2) \<Rightarrow> (Inr data, w2))"
      by (simp add: get_variables_try_def send_request_ok [OF ok] dg Inr w1_def)
    obtain r w2 where c2: "cache_each E c vs w1 = (r, w2)" by (cases "cache_each E c vs w1")
    show ?thesis
    proof (cases "list_all entry_ok vs")
      case True
      then have "r = Inr ()" using cr c2 by simp
      then show ?thesis
        using ce c2 True Some Inr by (simp add: gt w1_def)
    next
      case False
      then obtain e where "r = Inl e" using cr c2 by auto
      then show ?thesis
        using ce c2 False Some Inr by (simp add: gt w1_def)
    qed
  qed
qed

lemma get_variables_exact:
  "new_events w (snd (get_variables E c offset limit w)) =
     HttpGet (base_url c @ spec_variables_path offset limit)
       (request_headers E c (spec_variables_path offset limit)) 2
     # spec_cache_events (app_cache_dir E c) (remote_outcome E c (spec_variables_path offset limit))"
proof -
  define p where "p = spec_variables_path offset limit"
  obtain r w' where tr: "get_variables_try E c (base_url c @ p) (generate_hmac_header E c p) w = (r, w')"
    by (cases "get_variables_try E c (base_url c @ p) (generate_hmac_header E c p) w")
  note ex = get_variables_try_exact [of E c p w, unfolded tr fst_conv snd_conv]
  show ?thesis
  proof (cases r)
    case (Inl e)
    then show ?thesis
      using ex tr
      by (auto simp: get_variables_unfolded p_def [symmetric] new_events_def spec_cache_events_def
          get_variables_from_cache_def Let_def split: option.splits sum.splits if_splits)
  next
    case (Inr d)
    then show ?thesis
      using ex tr
      by (auto simp: get_variables_unfolded p_def [symmetric] new_events_def spec_cache_events_def
          split: option.splits sum.splits if_splits)
  qed
qed

lemma get_variables_well_formed:
  assumes "response_data (remote_outcome E c (spec_variables_path offset limit)) = Some data"
    and "py_iter data = Inr vs" and "list_all entry_ok vs"
  shows "fst (get_variables E c offset limit w) = Inr data"
proof -
  define p where "p = spec_variables_path offset limit"
  obtain r w' where tr: "get_variables_try E c (base_url c @ p) (generate_hmac_header E c p) w = (r, w')"
    by (cases "get_variables_try E c (base_url c @ p) (generate_hmac_header E c p) w")
  note ex = get_variables_try_exact [of E c p w, unfolded tr fst_conv snd_conv]
  show ?thesis
    using ex tr assms
    by (auto simp: get_variables_unfolded p_def [symmetric])
qed

lemma spec_cache_events_shape:
  "\<exists>writes reads. spec_cache_events dir r = writes @ reads
     \<and> list_all is_cache_write writes
     \<and> (writes \<noteq> [] \<longrightarrow> (\<exists>tx b. r = Response 200 tx (Some (PDict b))))
     \<and> (reads = [] \<or> reads = [CacheList dir])"
proof (cases "response_data r")
  case None
  then have "spec_cache_events dir r = [] @ [CacheList dir]"
    by (simp add: spec_cache_events_def)
  then show ?thesis
      by (intro exI [of _ "[]"] exI [of _ "[CacheList dir]"]) simp
next
  case (Some data)
  then obtain tx b where rb: "r = Response 200 tx (Some (PDict b))"
    using response_data_Some by blast
  show ?thesis
  proof (cases "py_iter data")
    case (Inl e)
    then have "spec_cache_events dir r = [] @ [CacheList dir]"
      using Some by (simp add: spec_cache_events_def)
    then show ?thesis
      by (intro exI [of _ "[]"] exI [of _ "[CacheList dir]"]) simp
  next
    case (Inr vs)
    have w: "list_all is_cache_write (map (entry_write dir) (takeWhile entry_ok vs))"
      by (simp add: list_all_iff entry_write_def is_cache_write_def)
    have "spec_cache_events dir r = map (entry_write dir) (takeWhile entry_ok vs)
        @ (if list_all entry_ok vs then [] else [CacheList dir])"
      using Some Inr by (simp add: spec_cache_events_def)
    then show ?thesis
      using w rb
      by (intro exI [of _ "map (entry_write dir) (takeWhile entry_ok vs)"]
          exI [of _ "if list_all entry_ok vs then [] else [CacheList dir]"]) simp
  qed
qed

text \<open>
  C9, as the code has it. After its request, \<open>get_variable\<close> makes exactly one cache
  access: one write when the response has status 200 and a JSON object as body, one read
  in every other case. After its request, the cache accesses of \<open>get_variables\<close> are
  those its specification gives from the response: when the response has status 200, a
  JSON object as body, and data whose entries all have a \<open>name\<close> and a \<open>value\<close>, the
  call writes every entry, makes no read and returns the fetched data; in every other
  case it makes one read, as its last access, after the writes of the entries that
  precede the first malformed one. Writes happen only after a response with status 200
  and a JSON object, and a failed remote attempt gives one read and no write.
\<close>

theorem cache_access_discipline:
  "new_events w (snd (get_variable E c variable_name w)) =
     (case remote_outcome E c (''/variables-values/'' @ variable_name) of
        Response status_code text (Some (PDict d)) \<Rightarrow>
          if status_code = 200 then
            [HttpGet (base_url c @ ''/variables-values/'' @ variable_name)
               (request_headers E c (''/variables-values/'' @ variable_name)) 2,
             CacheSet (app_cache_dir E c) (PStr variable_name)
               (case map_of d ''value'' of Some x \<Rightarrow> x | None \<Rightarrow> PNone)]
          else
            [HttpGet (base_url c @ ''/variables-values/'' @ variable_name)
               (request_headers E c (''/variables-values/'' @ variable_name)) 2,
             CacheGet (app_cache_dir E c) (PStr variable_name)]
      | _ \<Rightarrow>
          [HttpGet (base_url c @ ''/variables-values/'' @ variable_name)
             (request_headers E c (''/variables-values/'' @ variable_name)) 2,
           CacheGet (app_cache_dir E c) (PStr variable_name)])
   \<and> new_events w (snd (get_variables E c offset limit w)) =
       HttpGet (base_url c @ spec_variables_path offset limit)
         (request_headers E c (spec_variables_path offset limit)) 2
       # spec_cache_events (app_cache_dir E c) (remote_outcome E c (spec_variables_path offset limit))
   \<and> (\<forall>data vs. response_data (remote_outcome E c (spec_variables_path offset limit)) = Some data
          \<and> py_iter data = Inr vs \<and> list_all entry_ok vs
        \<longrightarrow> fst (get_variables E c offset limit w) = Inr data
            \<and> spec_cache_events (app_cache_dir E c) (remote_outcome E c (spec_variables_path offset limit))
                = map (entry_write (app_cache_dir E c)) vs)
   \<and> (remote_failed (remote_outcome E c (spec_variables_path offset limit))
        \<longrightarrow> spec_cache_events (app_cache_dir E c) (remote_outcome E c (spec_variables_path offset limit))
              = [CacheList (app_cache_dir E c)])
   \<and> (\<exists>writes reads.
         spec_cache_events (app_cache_dir E c) (remote_outcome E c (spec_variables_path offset limit))
           = writes @ reads
       \<and> list_all is_cache_write writes
       \<and> (writes \<noteq> [] \<longrightarrow>
            (\<exists>text b. remote_outcome E c (spec_variables_path offset limit)
                         = Response 200 text (Some (PDict b))))
       \<and> (reads = [] \<or> reads = [CacheList (app_cache_dir E c)]))"
proof -
  have wf: "fst (get_variables E c offset limit w) = Inr data
            \<and> spec_cache_events (app_cache_dir E c) (remote_outcome E c (spec_variables_path offset limit))
                = map (entry_write (app_cache_dir E c)) vs"
    if "response_data (remote_outcome E c (spec_variables_path offset limit)) = Some data"
      and "py_iter data = Inr vs" and "list_all entry_ok vs" for data vs
  proof -
    have tw: "takeWhile entry_ok vs = vs"
      using that(3) by (simp add: list_all_iff takeWhile_eq_all_conv)
    show ?thesis
      using get_variables_well_formed [OF that] that by (simp add: spec_cache_events_def tw)
  qed
  have rf: "spec_cache_events (app_cache_dir E c) (remote_outcome E c (spec_variables_path offset limit))
              = [CacheList (app_cache_dir E c)]"
    if "remote_failed (remote_outcome E c (spec_variables_path offset limit))"
    using that
    by (auto simp: spec_cache_events_def response_data_def remote_failed_def
        split: http_result.splits option.splits pyval.splits if_splits)
  show ?thesis
    using get_variable_events [of w E c variable_name] get_variables_exact [of w E c offset limit]
      wf rf spec_cache_events_shape [of "app_cache_dir E c"
        "remote_outcome E c (spec_variables_path offset limit)"]
    by blast
qed

theorem cache_access_discipline_witness:
  "new_events empty_world (snd (get_variable (mock_env Timeout False) mock_client ''DB_URL'' empty_world)) =
     [HttpGet ''https://api.envbee.dev/variables-values/DB_URL''
        [(''Authorization'',
          ''HMAC 1700000000000:mac(secret,1700000000000GET/variables-values/DB_URLmd5({}))''),
         (''x-api-key'', ''key'')] 2,
      CacheGet ''/cache/envbee/key'' (PStr ''DB_URL'')]
   \<and> new_events empty_world (snd (get_variables (mock_env Timeout False) mock_client None None empty_world)) =
     [HttpGet ''https://api.envbee.dev/variables''
        [(''Authorization'', ''HMAC 1700000000000:mac(secret,1700000000000GET/variablesmd5({}))''),
         (''x-api-key'', ''key'')] 2,
      CacheList ''/cache/envbee/key'']
   \<and> new_events empty_world
        (snd (get_variables (mock_env (Response 200 ''body'' (Some wellformed_body)) False)
                mock_client None None empty_world)) =
     [HttpGet ''https://api.envbee.dev/variables''
        [(''Authorization'', ''HMAC 1700000000000:mac(secret,1700000000000GET/variablesmd5({}))''),
         (''x-api-key'', ''key'')] 2,
      CacheSet ''/cache/envbee/key'' (PStr ''A'') (PStr ''1''),
      CacheSet ''/cache/envbee/key'' (PStr ''B'') (PStr ''2'')]
   \<and> fst (get_variables (mock_env (Response 200 ''body'' (Some wellformed_body)) False)
                mock_client None None empty_world) =
     Inr (PList [PDict [(''name'', PStr ''A''), (''value'', PStr ''1'')],
                 PDict [(''name'', PStr ''B''), (''value'', PStr ''2'')]])"
proof -
  define R where "R = Response 200 ''body'' (Some wellformed_body)"
  define DATA where "DATA = PList [PDict [(''name'', PStr ''A''), (''value'', PStr ''1'')],
                   PDict [(''name'', PStr ''B''), (''value'', PStr ''2'')]]"
  define VS where "VS = [PDict [(''name'', PStr ''A''), (''value'', PStr ''1'')],
                   PDict [(''name'', PStr ''B''), (''value'', PStr ''2'')]]"
  have o: "remote_outcome (mock_env r f) mock_client p = r" for r f p
    by (simp add: remote_outcome_def mock_env_def)
  have d: "app_cache_dir (mock_env r f) mock_client = ''/cache/envbee/key''" for r f
    by (simp add: app_cache_dir_def mock_env_def mock_lib_def mock_client_def init_def)
  have rd: "response_data (remote_outcome (mock_env R False) mock_client (spec_variables_path None None))
      = Some DATA"
    by (simp add: o R_def DATA_def response_data_def wellformed_body_def)
  have it: "py_iter DATA = Inr VS"
    by (simp add: py_iter_def DATA_def VS_def)
  have ok: "list_all entry_ok VS"
    by (simp add: entry_ok_def VS_def)
  have t: "spec_cache_events ''/cache/envbee/key'' Timeout = [CacheList ''/cache/envbee/key'']"
    by (simp add: spec_cache_events_def response_data_def)
  note T1 = cache_access_discipline [of empty_world "mock_env Timeout False" mock_client "''DB_URL''" None None]
  note T2 = cache_access_discipline [of empty_world "mock_env R False" mock_client "''DB_URL''" None None]
  have a: "new_events empty_world (snd (get_variable (mock_env Timeout False) mock_client ''DB_URL'' empty_world)) =
     [HttpGet ''https://api.envbee.dev/variables-values/DB_URL''
        [(''Authorization'',
          ''HMAC 1700000000000:mac(secret,1700000000000GET/variables-values/DB_URLmd5({}))''),
         (''x-api-key'', ''key'')] 2,
      CacheGet ''/cache/envbee/key'' (PStr ''DB_URL'')]"
    using T1 [THEN conjunct1] mock_request [of "''/variables-values/DB_URL''" Timeout False]
    by (simp add: o d)
  have b: "new_events empty_world (snd (get_variables (mock_env Timeout False) mock_client None None empty_world)) =
     [HttpGet ''https://api.envbee.dev/variables''
        [(''Authorization'', ''HMAC 1700000000000:mac(secret,1700000000000GET/variablesmd5({}))''),
         (''x-api-key'', ''key'')] 2,
      CacheList ''/cache/envbee/key'']"
    using T1 [THEN conjunct2, THEN conjunct1] mock_request [of "''/variables''" Timeout False]
    by (simp add: o d t spec_variables_path_none)
  have wf: "fst (get_variables (mock_env R False) mock_client None None empty_world) = Inr DATA
      \<and> spec_cache_events (app_cache_dir (mock_env R False) mock_client)
           (remote_outcome (mock_env R False) mock_client (spec_variables_path None None))
          = map (entry_write (app_cache_dir (mock_env R False) mock_client)) VS"
    using T2 rd it ok by blast
  have c: "new_events empty_world (snd (get_variables (mock_env R False) mock_client None None empty_world)) =
     [HttpGet ''https://api.envbee.dev/variables''
        [(''Authorization'', ''HMAC 1700000000000:mac(secret,1700000000000GET/variablesmd5({}))''),
         (''x-api-key'', ''key'')] 2,
      CacheSet ''/cache/envbee/key'' (PStr ''A'') (PStr ''1''),
      CacheSet ''/cache/envbee/key'' (PStr ''B'') (PStr ''2'')]"
    using T2 [THEN conjunct2, THEN conjunct1] wf mock_request [of "''/variables''" R False]
    by (simp add: d spec_variables_path_none VS_def entry_write_def)
  show ?thesis
    using a b c wf by (simp add: R_def DATA_def)
qed

subsection \<open>\<open>add_querystring\<close>\<close>

lemma urlunsplit_split:
  "urlunsplit sch nl u q f = urlunsplit sch nl u [] [] @ (if q = [] then [] else ''?'' @ q)
     @ (if f = [] then [] else ''#'' @ f)"
  by (simp add: urlunsplit_def Let_def)

lemma urlunparse_split:
  "urlunparse p = url_before_query p @ (if query p = [] then [] else ''?'' @ query p)
     @ (if fragment p = [] then [] else ''#'' @ fragment p)"
  unfolding urlunparse_def url_before_query_def
  by (subst urlunsplit_split) simp

lemma urlencode_item_strings:
  "urlencode_item (k, pv) = map (\<lambda>v. quote_plus k @ ''='' @ quote_plus v) (qvalue_strings pv)"
  by (cases pv) (simp_all add: urlencode_item_def qvalue_strings_def)

lemma join_Nil_iff: "list_all (\<lambda>f. f \<noteq> []) fs \<Longrightarrow> (join sep fs = []) = (fs = [])"
  by (induction sep fs rule: join.induct) simp_all

lemma parse_qs_add_props:
  assumes "distinct (map fst d)"
  shows "distinct (map fst (parse_qs_add d (n, v)))"
    and "(\<exists>ws. (k, ws) \<in> set (parse_qs_add d (n, v)) \<and> x \<in> set ws)
         = ((\<exists>ws. (k, ws) \<in> set d \<and> x \<in> set ws) \<or> (k = n \<and> x = v))"
proof -
  show "distinct (map fst (parse_qs_add d (n, v)))"
    using assms
    by (auto simp: parse_qs_add_def distinct_update map_of_eq_None_iff split: option.splits)
  show "(\<exists>ws. (k, ws) \<in> set (parse_qs_add d (n, v)) \<and> x \<in> set ws)
         = ((\<exists>ws. (k, ws) \<in> set d \<and> x \<in> set ws) \<or> (k = n \<and> x = v))"
  proof (cases "map_of d n")
    case None
    then show ?thesis by (auto simp: parse_qs_add_def)
  next
    case (Some vs)
    have du: "distinct (map fst (AList.update n (vs @ [v]) d))"
      using assms by (simp add: distinct_update)
    have mem: "((j, ws) \<in> set (AList.update n (vs @ [v]) d))
        = (if j = n then ws = vs @ [v] else (j, ws) \<in> set d)" for j ws
    proof -
      have "((j, ws) \<in> set (AList.update n (vs @ [v]) d))
          = (map_of (AList.update n (vs @ [v]) d) j = Some ws)"
        by (rule map_of_eq_Some_iff [OF du, symmetric])
      also have "\<dots> = (if j = n then ws = vs @ [v] else map_of d j = Some ws)"
        by (auto simp add: update_conv' simp del: map_of_eq_Some_iff)
      also have "\<dots> = (if j = n then ws = vs @ [v] else (j, ws) \<in> set d)"
        using map_of_eq_Some_iff [OF assms, of j ws] by simp
      finally show ?thesis .
    qed
    have old: "(n, vs) \<in> set d"
      using Some map_of_eq_Some_iff [OF assms] by simp
    have uniq: "(n, ws) \<in> set d \<Longrightarrow> ws = vs" for ws
      using Some map_of_eq_Some_iff [OF assms, of n ws] by simp
    have upd: "parse_qs_add d (n, v) = AList.update n (vs @ [v]) d"
      using Some by (simp add: parse_qs_add_def)
    show ?thesis
    proof (cases "k = n")
      case True
      have "(\<exists>ws. (n, ws) \<in> set d \<and> x \<in> set ws) = (x \<in> set vs)"
        using old uniq by blast
      then show ?thesis
        unfolding upd using True by (auto simp: mem)
    next
      case False
      then show ?thesis
        unfolding upd by (simp add: mem)
    qed
  qed
qed

lemma foldl_parse_qs_add:
  assumes "distinct (map fst d)"
  shows "distinct (map fst (foldl parse_qs_add d ps))
    \<and> (\<forall>k x. (\<exists>ws. (k, ws) \<in> set (foldl parse_qs_add d ps) \<and> x \<in> set ws)
         = ((\<exists>ws. (k, ws) \<in> set d \<and> x \<in> set ws) \<or> (k, x) \<in> set ps))"
  using assms
proof (induction ps arbitrary: d)
  case Nil
  then show ?case by simp
next
  case (Cons a ps)
  obtain n v where a: "a = (n, v)" by (cases a)
  have d1: "distinct (map fst (parse_qs_add d (n, v)))"
    using parse_qs_add_props(1) [OF Cons.prems] .
  show ?case
    using Cons.IH [OF d1] parse_qs_add_props(2) [OF Cons.prems, of _ n v]
    by (auto simp: a)
qed

lemma parse_qs_values:
  "distinct (map fst (parse_qs qs))"
  "(\<exists>ws. (k, ws) \<in> set (parse_qs qs) \<and> x \<in> set ws) = ((k, x) \<in> set (parse_qsl qs))"
  using foldl_parse_qs_add [of "[]" "parse_qsl qs"] by (simp_all add: parse_qs_def)

lemma dict_update_props:
  assumes "distinct (map fst d)" and "distinct (map fst new)"
  shows "distinct (map fst (dict_update d new))
    \<and> map_of (dict_update d new) k = (case map_of new k of Some v \<Rightarrow> Some v | None \<Rightarrow> map_of d k)"
  using assms
proof (induction new arbitrary: d)
  case Nil
  then show ?case by (simp add: dict_update_def)
next
  case (Cons a new)
  obtain n v where a: "a = (n, v)" by (cases a)
  have d1: "distinct (map fst (AList.update n v d))"
    using Cons.prems(1) by (simp add: distinct_update)
  have d2: "distinct (map fst new)" and nn: "n \<notin> fst ` set new"
    using Cons.prems(2) by (auto simp: a)
  have step: "dict_update d ((n, v) # new) = dict_update (AList.update n v d) new"
    by (simp add: dict_update_def)
  have none: "map_of new n = None"
    using nn by (simp add: map_of_eq_None_iff)
  show ?case
    using Cons.IH [OF d1 d2] none
    by (auto simp: step a update_conv' split: option.splits)
qed


lemma url_before_query_update [simp]:
  "url_before_query (p\<lparr> query := q \<rparr>) = url_before_query p"
  by (simp add: url_before_query_def)

lemma urlparse_offset5:
  "urlparse L ''/variables?offset=5'' =
     Inr \<lparr> scheme = [], netloc = [], path = ''/variables'', params = [], query = ''offset=5'',
           fragment = [] \<rparr>"
  by (simp add: urlparse_def urlsplit_def Let_def is_c0_or_space_def byte_def is_unsafe_byte_def
      has_scheme_def checknetloc_def uses_params_def partition_at_def)

lemma parse_qs_offset5: "parse_qs ''offset=5'' = [(''offset'', [''5''])]"
  by (simp add: parse_qs_def parse_qsl_def parse_field_def partition_at_def unquote_plus_def
      unquote_def parse_qs_add_def)

lemma add_querystring_example:
  "add_querystring L ''/variables?offset=5'' [(''limit'', VInt 10)] = Inr ''/variables?offset=5&limit=10''"
  by (simp add: add_querystring_def urlparse_offset5 parse_qs_offset5 Let_def dict_update_def
      urlencode_def urlencode_item_def quote_plus_offset quote_plus_limit quote_plus_safe
      str_int_safe str_int_small urlunparse_def urlunsplit_def always_safe_def is_digit_def byte_def)

text \<open>
  C7, as the code has it. For every URL that \<open>urlparse\<close> accepts and every parameter
  dict, \<open>add_querystring\<close> gives the URL before its query, then \<open>?\<close> and the fields
  joined by \<open>&\<close>, then the fragment. The fields are exactly the encoded pairs
  \<open>name=value\<close> of the parameters that \<open>parse_qs\<close> reads from the query (those with a
  value that is not empty) whose name the dict does not supply, and the encoded pairs of
  the dict. In particular \<open>add_querystring("/variables?offset=5", {limit: 10})\<close> is
  \<open>/variables?offset=5&limit=10\<close>.
\<close>

theorem add_querystring_merges:
  assumes "urlparse L url = Inr p" and "distinct (map fst new_params)"
  shows "(\<exists>fields.
           add_querystring L url new_params =
             Inr (url_before_query p @ (if fields = [] then [] else ''?'' @ join ''&'' fields)
                    @ (if fragment p = [] then [] else ''#'' @ fragment p))
         \<and> (\<forall>f. (f \<in> set fields) =
               ((\<exists>k v. f = quote_plus k @ ''='' @ quote_plus v
                        \<and> (k, v) \<in> set (parse_qsl (query p)) \<and> k \<notin> fst ` set new_params)
                \<or> (\<exists>k pv v. f = quote_plus k @ ''='' @ quote_plus v
                        \<and> (k, pv) \<in> set new_params \<and> v \<in> set (qvalue_strings pv)))))
     \<and> add_querystring L ''/variables?offset=5'' [(''limit'', VInt 10)]
           = Inr ''/variables?offset=5&limit=10''"
proof -
  define old where "old = map (\<lambda>kv. (fst kv, VList (snd kv))) (parse_qs (query p))"
  define merged where "merged = dict_update old new_params"
  define fields where "fields = concat (map urlencode_item merged)"
  have aq: "add_querystring L url new_params = Inr (urlunparse (p\<lparr> query := join ''&'' fields \<rparr>))"
    by (simp add: add_querystring_def assms(1) Let_def urlencode_def fields_def merged_def old_def)
  have dold: "distinct (map fst old)"
    using parse_qs_values(1) [of "query p"] by (simp add: old_def comp_def)
  have dm: "distinct (map fst merged)"
    and mm: "map_of merged k = (case map_of new_params k of Some v \<Rightarrow> Some v | None \<Rightarrow> map_of old k)" for k
    using dict_update_props [OF dold assms(2)] by (simp_all add: merged_def)
  have mem_merged: "((k, pv) \<in> set merged) =
      ((k, pv) \<in> set new_params \<or> (k \<notin> fst ` set new_params \<and> (k, pv) \<in> set old))" for k pv
  proof -
    have "((k, pv) \<in> set merged) = (map_of merged k = Some pv)"
      by (rule map_of_eq_Some_iff [OF dm, symmetric])
    also have "\<dots> = ((k, pv) \<in> set new_params \<or> (k \<notin> fst ` set new_params \<and> (k, pv) \<in> set old))"
    proof (cases "map_of new_params k")
      case None
      then have "k \<notin> fst ` set new_params" by (simp add: map_of_eq_None_iff)
      then show ?thesis
        using None map_of_eq_Some_iff [OF dold, of k pv] by (force simp: mm)
    next
      case (Some v)
      then have "(k, v) \<in> set new_params"
        using map_of_eq_Some_iff [OF assms(2), of k v] by simp
      then show ?thesis
        using Some map_of_eq_Some_iff [OF assms(2), of k pv] by (force simp: mm)
    qed
    finally show ?thesis .
  qed
  have mem_old: "((k, pv) \<in> set old) = (\<exists>ws. pv = VList ws \<and> (k, ws) \<in> set (parse_qs (query p)))" for k pv
    by (force simp: old_def image_iff)
  have mem_fields: "(f \<in> set fields) =
      (\<exists>k pv v. (k, pv) \<in> set merged \<and> v \<in> set (qvalue_strings pv)
                \<and> f = quote_plus k @ ''='' @ quote_plus v)" for f
  proof -
    have "urlencode_item kv =
        map (\<lambda>v. quote_plus (fst kv) @ ''='' @ quote_plus v) (qvalue_strings (snd kv))" for kv
      using urlencode_item_strings [of "fst kv" "snd kv"] by simp
    then have "(f \<in> set fields) =
        (\<exists>kv \<in> set merged. \<exists>v \<in> set (qvalue_strings (snd kv)).
            f = quote_plus (fst kv) @ ''='' @ quote_plus v)"
      by (auto simp: fields_def)
    also have "\<dots> = (\<exists>k pv v. (k, pv) \<in> set merged \<and> v \<in> set (qvalue_strings pv)
                \<and> f = quote_plus k @ ''='' @ quote_plus v)"
      by (metis prod.collapse fst_conv snd_conv)
    finally show ?thesis .
  qed
  have chars: "(f \<in> set fields) =
       ((\<exists>k v. f = quote_plus k @ ''='' @ quote_plus v
                \<and> (k, v) \<in> set (parse_qsl (query p)) \<and> k \<notin> fst ` set new_params)
        \<or> (\<exists>k pv v. f = quote_plus k @ ''='' @ quote_plus v
                \<and> (k, pv) \<in> set new_params \<and> v \<in> set (qvalue_strings pv)))" for f
  proof
    assume "f \<in> set fields"
    then obtain k pv v where m: "(k, pv) \<in> set merged" "v \<in> set (qvalue_strings pv)"
        "f = quote_plus k @ ''='' @ quote_plus v"
      using mem_fields by blast
    show "(\<exists>k v. f = quote_plus k @ ''='' @ quote_plus v
                \<and> (k, v) \<in> set (parse_qsl (query p)) \<and> k \<notin> fst ` set new_params)
        \<or> (\<exists>k pv v. f = quote_plus k @ ''='' @ quote_plus v
                \<and> (k, pv) \<in> set new_params \<and> v \<in> set (qvalue_strings pv))"
    proof (cases "(k, pv) \<in> set new_params")
      case True
      then show ?thesis using m by blast
    next
      case False
      then have nk: "k \<notin> fst ` set new_params" and "(k, pv) \<in> set old"
        using m(1) mem_merged by auto
      then obtain ws where ws: "pv = VList ws" "(k, ws) \<in> set (parse_qs (query p))"
        using mem_old by blast
      then have "v \<in> set ws" using m(2) by (simp add: qvalue_strings_def)
      then have "(k, v) \<in> set (parse_qsl (query p))"
        using ws(2) parse_qs_values(2) [where k = k and x = v and qs = "query p"] by blast
      then show ?thesis using m(3) nk by blast
    qed
  next
    assume "(\<exists>k v. f = quote_plus k @ ''='' @ quote_plus v
                \<and> (k, v) \<in> set (parse_qsl (query p)) \<and> k \<notin> fst ` set new_params)
        \<or> (\<exists>k pv v. f = quote_plus k @ ''='' @ quote_plus v
                \<and> (k, pv) \<in> set new_params \<and> v \<in> set (qvalue_strings pv))"
    then show "f \<in> set fields"
    proof
      assume "\<exists>k v. f = quote_plus k @ ''='' @ quote_plus v
                \<and> (k, v) \<in> set (parse_qsl (query p)) \<and> k \<notin> fst ` set new_params"
      then obtain k v where kv: "f = quote_plus k @ ''='' @ quote_plus v"
          "(k, v) \<in> set (parse_qsl (query p))" "k \<notin> fst ` set new_params"
        by blast
      then obtain ws where ws: "(k, ws) \<in> set (parse_qs (query p))" "v \<in> set ws"
        using parse_qs_values(2) [where k = k and x = v and qs = "query p"] by blast
      then have "(k, VList ws) \<in> set merged"
        using kv(3) mem_merged mem_old by blast
      moreover have "v \<in> set (qvalue_strings (VList ws))"
        using ws(2) by (simp add: qvalue_strings_def)
      ultimately show ?thesis using kv(1) mem_fields by blast
    next
      assume "\<exists>k pv v. f = quote_plus k @ ''='' @ quote_plus v
                \<and> (k, pv) \<in> set new_params \<and> v \<in> set (qvalue_strings pv)"
      then show ?thesis using mem_merged mem_fields by blast
    qed
  qed
  have "list_all (\<lambda>f. f \<noteq> []) fields"
    using mem_fields by (auto simp: list_all_iff)
  then have jn: "(join ''&'' fields = []) = (fields = [])"
    by (rule join_Nil_iff)
  have "add_querystring L url new_params =
          Inr (url_before_query p @ (if fields = [] then [] else ''?'' @ join ''&'' fields)
                 @ (if fragment p = [] then [] else ''#'' @ fragment p))"
    unfolding aq by (subst urlunparse_split) (simp add: jn)
  then show ?thesis using chars add_querystring_example by blast
qed

theorem add_querystring_merges_witness:
  "\<exists>fields. add_querystring mock_lib ''/variables?offset=5'' [(''limit'', VInt 10)]
              = Inr (''/variables?'' @ join ''&'' fields)
     \<and> ''offset=5'' \<in> set fields \<and> ''limit=10'' \<in> set fields"
proof -
  define P where "P = \<lparr> scheme = [], netloc = [], path = ''/variables'', params = [],
                     query = ''offset=5'', fragment = [] \<rparr>"
  have h1: "urlparse mock_lib ''/variables?offset=5'' = Inr P"
    by (simp add: P_def urlparse_offset5)
  have h2: "distinct (map fst [(''limit'', VInt 10)])" by simp
  obtain fields where f1: "add_querystring mock_lib ''/variables?offset=5'' [(''limit'', VInt 10)] =
             Inr (url_before_query P @ (if fields = [] then [] else ''?'' @ join ''&'' fields)
                    @ (if fragment P = [] then [] else ''#'' @ fragment P))"
    and f2: "\<forall>f. (f \<in> set fields) =
               ((\<exists>k v. f = quote_plus k @ ''='' @ quote_plus v
                        \<and> (k, v) \<in> set (parse_qsl (query P)) \<and> k \<notin> fst ` set [(''limit'', VInt 10)])
                \<or> (\<exists>k pv v. f = quote_plus k @ ''='' @ quote_plus v
                        \<and> (k, pv) \<in> set [(''limit'', VInt 10)] \<and> v \<in> set (qvalue_strings pv)))"
    using add_querystring_merges [OF h1 h2] by blast
  have q5: "quote_plus ''5'' = ''5''" and q10: "quote_plus ''10'' = ''10''"
    by (rule quote_plus_safe, simp add: always_safe_def is_digit_def byte_def)+
  have "(''offset'', ''5'') \<in> set (parse_qsl (query P))"
    by (simp add: P_def parse_qsl_def parse_field_def partition_at_def unquote_plus_def unquote_def)
  then have "\<exists>k v. ''offset=5'' = quote_plus k @ ''='' @ quote_plus v
                        \<and> (k, v) \<in> set (parse_qsl (query P)) \<and> k \<notin> fst ` set [(''limit'', VInt 10)]"
    by (intro exI [of _ "''offset''"] exI [of _ "''5''"]) (simp add: quote_plus_offset q5)
  then have a: "''offset=5'' \<in> set fields"
    using f2 by blast
  have "\<exists>k pv v. ''limit=10'' = quote_plus k @ ''='' @ quote_plus v
                        \<and> (k, pv) \<in> set [(''limit'', VInt 10)] \<and> v \<in> set (qvalue_strings pv)"
    by (intro exI [of _ "''limit''"] exI [of _ "VInt 10"] exI [of _ "''10''"])
       (simp add: quote_plus_limit q10 qvalue_strings_def str_int_small)
  then have b: "''limit=10'' \<in> set fields"
    using f2 by blast
  have "fields \<noteq> []" using a by auto
  then have "add_querystring mock_lib ''/variables?offset=5'' [(''limit'', VInt 10)]
              = Inr (''/variables?'' @ join ''&'' fields)"
    using f1 by (simp add: P_def url_before_query_def urlunparse_def urlunsplit_def Let_def)
  then show ?thesis using a b by blast
qed

text \<open>
  C7 as stated fails: a parameter of the URL whose value is empty is not in the result,
  although the dict does not supply its name: \<open>parse_qs\<close> leaves blank values out.
\<close>

theorem add_querystring_blank_value_counterexample:
  "add_querystring mock_lib ''/variables?flag=&offset=5'' [(''limit'', VInt 10)]
     = Inr ''/variables?offset=5&limit=10''"
  by code_simp

end
